theory Spec2Isabelle
  imports Complex_Main "HOL-Library.AList" "HOL-Library.Multiset" "HOL-Library.Sublist"
begin

section \<open>Data model (types.ts)\<close>

text \<open>
  The enums of the source become datatypes and its interfaces become records.  Field
  names are those of the source; where two interfaces share a field name the field
  carries a short prefix of its interface (\<open>tx_\<close> for Transaction, \<open>st_\<close> for
  BankStatementItem, \<open>tb_\<close> for TrialBalanceItem, \<open>ec_\<close> for EquityChangeItem);
  the field \<open>notes\<close> of FinancialStatements is \<open>fs_notes\<close>, since \<open>notes\<close> is a
  keyword of the proof language.
  A JavaScript \<open>number\<close> is a \<open>real\<close>, and \<open>calculateStatements\<close> and
  \<open>getTrendData\<close> below compute with exact arithmetic; \<open>NaN\<close> and the infinities of
  IEEE doubles are outside the model.  The two loops whose result depends on how the
  platform rounds a sum are given a second time with the addition as a parameter
  (\<open>buildTrialBalanceWith\<close>, \<open>getTrendDataWith\<close>), and the addition of IEEE doubles is
  \<open>fadd\<close>.  An optional field is an \<open>option\<close>.
\<close>

datatype AccountCategory = ASSET | LIABILITY | EQUITY | REVENUE | EXPENSE

datatype TransactionType = DEBIT | CREDIT

record Transaction =
  tx_id :: string
  tx_date :: string
  tx_description :: string
  tx_accountName :: string
  tx_category :: AccountCategory
  tx_amount :: real
  tx_type :: TransactionType

record TrialBalanceItem =
  tb_accountName :: string
  tb_category :: AccountCategory
  tb_debit :: real
  tb_credit :: real

record StatementItem =
  label :: string
  amount :: real
  isTotal :: "bool option"

record EquityChangeItem =
  ec_accountName :: string
  openingBalance :: real
  additions :: real
  ec_netIncome :: real
  withdrawals :: real
  closingBalance :: real

record FinancialNote =
  noteNumber :: nat
  title :: string
  content :: string
  data :: "StatementItem list option"

record BankStatementItem =
  st_id :: string
  st_date :: string
  st_description :: string
  st_amount :: real

datatype ReconStatus = matched | missing_in_statement | missing_in_book | amount_mismatch

record ReconMatch =
  bookEntry :: "Transaction option"
  statementEntry :: "BankStatementItem option"
  status :: ReconStatus

record IncomeStatement =
  revenue :: "StatementItem list"
  expenses :: "StatementItem list"
  totalRevenue :: real
  totalExpenses :: real
  netIncome :: real

record BalanceSheet =
  assets :: "StatementItem list"
  liabilities :: "StatementItem list"
  equity :: "StatementItem list"
  totalAssets :: real
  totalLiabilities :: real
  totalEquity :: real

record CashFlow =
  operating :: "StatementItem list"
  investing :: "StatementItem list"
  financing :: "StatementItem list"
  netCashFlow :: real

record Variance =
  revenueActual :: real
  revenueBudget :: real
  expenseActual :: real
  expenseBudget :: real

text \<open>
  The two object types that the source leaves anonymous: the value type of \<open>accountMap\<close>
  in \<open>calculateStatements\<close>, and the value type of \<open>dataMap\<close> in \<open>getTrendData\<close>
  together with the element type of its result (\<open>tt_\<close> and \<open>tp_\<close> prefixes).
\<close>

record AccountData =
  category :: AccountCategory
  debit :: real
  credit :: real

record TrendTotals =
  tt_revenue :: real
  tt_expense :: real
  tt_profit :: real

record TrendPoint =
  month :: string
  tp_revenue :: real
  tp_expense :: real
  tp_profit :: real

record FinancialStatements =
  trialBalance :: "TrialBalanceItem list"
  incomeStatement :: IncomeStatement
  balanceSheet :: BalanceSheet
  cashFlow :: CashFlow
  equityChanges :: "EquityChangeItem list"
  fs_notes :: "FinancialNote list"
  variance :: Variance

section \<open>Bank reconciliation (performBankReconciliation)\<close>

text \<open>
  \<open>bookAmount\<close> is the local constant of the same name.  \<open>reconBook\<close> is the body of
  the first \<open>forEach\<close>: the state is the pair of the \<open>matches\<close> array and the
  \<open>matchedStatementIds\<close> set; \<open>Array.prototype.find\<close> is \<open>List.find\<close>, with
  \<open>undefined\<close> as \<open>None\<close>; \<open>push\<close> appends at the end.  \<open>reconStatement\<close> is the
  body of the second \<open>forEach\<close>.
\<close>

definition bookAmount :: "Transaction \<Rightarrow> real" where
  "bookAmount book = (if tx_type book = DEBIT then tx_amount book else - tx_amount book)"

definition reconBook ::
  "BankStatementItem list \<Rightarrow> Transaction \<Rightarrow> ReconMatch list \<times> string set
    \<Rightarrow> ReconMatch list \<times> string set" where
  "reconBook statementEntries book state =
     (case state of (matches, matchedStatementIds) \<Rightarrow>
        (case List.find (\<lambda>st. st_date st = tx_date book \<and> st_amount st = bookAmount book
                                \<and> st_id st \<notin> matchedStatementIds) statementEntries of
           Some match \<Rightarrow>
             (matches @ [\<lparr>bookEntry = Some book, statementEntry = Some match, status = matched\<rparr>],
              insert (st_id match) matchedStatementIds)
         | None \<Rightarrow>
             (matches @ [\<lparr>bookEntry = Some book, statementEntry = None,
                          status = missing_in_statement\<rparr>],
              matchedStatementIds)))"

definition reconStatement ::
  "string set \<Rightarrow> BankStatementItem \<Rightarrow> ReconMatch list \<Rightarrow> ReconMatch list" where
  "reconStatement matchedStatementIds st matches =
     (if st_id st \<notin> matchedStatementIds
      then matches @ [\<lparr>bookEntry = None, statementEntry = Some st, status = missing_in_book\<rparr>]
      else matches)"

definition performBankReconciliation ::
  "Transaction list \<Rightarrow> BankStatementItem list \<Rightarrow> ReconMatch list" where
  "performBankReconciliation bookEntries statementEntries =
     (case fold (reconBook statementEntries) bookEntries ([], {}) of
        (matches, matchedStatementIds) \<Rightarrow>
          fold (reconStatement matchedStatementIds) statementEntries matches)"

section \<open>Financial statements (calculateStatements)\<close>

text \<open>
  A JavaScript \<open>Map\<close> iterates in insertion order and \<open>set\<close> on a present key keeps the
  key's position: it is an association list, read with \<open>map_of\<close> and written with
  \<open>AList.update\<close> (replace in place, else append).  \<open>accumulate\<close> is the body of the
  \<open>forEach\<close> that builds \<open>accountMap\<close>; \<open>x || d\<close> on a looked-up object is the
  \<open>case\<close> on the lookup.  \<open>buildTrialBalance\<close> is the first section of
  \<open>calculateStatements\<close>, which ends with the value of its local \<open>trialBalance\<close>.
\<close>

definition accumulate ::
  "Transaction \<Rightarrow> (string \<times> AccountData) list \<Rightarrow> (string \<times> AccountData) list" where
  "accumulate tx accountMap =
     (let current = (case map_of accountMap (tx_accountName tx) of
                       Some c \<Rightarrow> c
                     | None \<Rightarrow> \<lparr>category = tx_category tx, debit = 0, credit = 0\<rparr>);
          current' = (if tx_type tx = DEBIT
                      then current\<lparr>debit := debit current + tx_amount tx\<rparr>
                      else current\<lparr>credit := credit current + tx_amount tx\<rparr>)
      in AList.update (tx_accountName tx) current' accountMap)"

definition buildTrialBalance :: "Transaction list \<Rightarrow> TrialBalanceItem list" where
  "buildTrialBalance transactions =
     map (\<lambda>(accountName, d). \<lparr>tb_accountName = accountName, tb_category = category d,
                               tb_debit = debit d, tb_credit = credit d\<rparr>)
         (fold accumulate transactions [])"

text \<open>
  The same loop with the addition of \<open>current.debit += tx.amount\<close> and
  \<open>current.credit += tx.amount\<close> as a parameter: at \<open>(+)\<close> it is the loop above, at
  \<open>fadd\<close> it adds as the platform does.
\<close>

definition accumulateWith ::
  "(real \<Rightarrow> real \<Rightarrow> real) \<Rightarrow> Transaction \<Rightarrow> (string \<times> AccountData) list
    \<Rightarrow> (string \<times> AccountData) list" where
  "accumulateWith add tx accountMap =
     (let current = (case map_of accountMap (tx_accountName tx) of
                       Some c \<Rightarrow> c
                     | None \<Rightarrow> \<lparr>category = tx_category tx, debit = 0, credit = 0\<rparr>);
          current' = (if tx_type tx = DEBIT
                      then current\<lparr>debit := add (debit current) (tx_amount tx)\<rparr>
                      else current\<lparr>credit := add (credit current) (tx_amount tx)\<rparr>)
      in AList.update (tx_accountName tx) current' accountMap)"

definition buildTrialBalanceWith ::
  "(real \<Rightarrow> real \<Rightarrow> real) \<Rightarrow> Transaction list \<Rightarrow> TrialBalanceItem list" where
  "buildTrialBalanceWith add transactions =
     map (\<lambda>(accountName, d). \<lparr>tb_accountName = accountName, tb_category = category d,
                               tb_debit = debit d, tb_credit = credit d\<rparr>)
         (fold (accumulateWith add) transactions [])"

text \<open>\<open>items.reduce((s, i) => s + i.amount, 0)\<close>\<close>

definition sumAmounts :: "StatementItem list \<Rightarrow> real" where
  "sumAmounts items = foldl (\<lambda>s i. s + amount i) 0 items"

text \<open>
  \<open>String.prototype.includes\<close>, here \<open>str_includes\<close>: the second string occurs in
  the first as a contiguous block (the empty string occurs in every string).
\<close>

fun str_includes :: "string \<Rightarrow> string \<Rightarrow> bool" where
  "str_includes [] sub = (sub = [])"
| "str_includes (c # cs) sub = (prefix sub (c # cs) \<or> str_includes cs sub)"

definition cashAccounts :: "string list" where
  "cashAccounts = [''Cash'', ''Bank'', ''Petty Cash'']"

text \<open>
  The body of the \<open>forEach\<close> of the cash-flow section; the state is the triple of the
  arrays \<open>op\<close>, \<open>inv\<close> and \<open>fin\<close> (primed here: \<open>inv\<close> is a constant of HOL).
\<close>

definition cashFlowStep ::
  "Transaction \<Rightarrow> StatementItem list \<times> StatementItem list \<times> StatementItem list
    \<Rightarrow> StatementItem list \<times> StatementItem list \<times> StatementItem list" where
  "cashFlowStep tx buckets =
     (case buckets of (op', inv', fin') \<Rightarrow>
        (let amt = (if tx_type tx = DEBIT then tx_amount tx else - tx_amount tx) in
         if tx_category tx = REVENUE \<or> tx_category tx = EXPENSE
         then (op' @ [\<lparr>label = tx_description tx, amount = amt, isTotal = None\<rparr>], inv', fin')
         else if tx_category tx = ASSET
                 \<and> \<not> list_ex (\<lambda>acc. str_includes (tx_accountName tx) acc) cashAccounts
         then (op', inv' @ [\<lparr>label = tx_description tx, amount = amt, isTotal = None\<rparr>], fin')
         else if tx_category tx = LIABILITY \<or> tx_category tx = EQUITY
         then (op', inv', fin' @ [\<lparr>label = tx_description tx, amount = amt, isTotal = None\<rparr>])
         else (op', inv', fin')))"

definition equityChange :: "StatementItem \<Rightarrow> EquityChangeItem" where
  "equityChange item =
     \<lparr>ec_accountName = label item,
      openingBalance = (if amount item > 50000 then 50000 else 0),
      additions = (if amount item > 50000 then amount item - 50000 else amount item),
      ec_netIncome = 0,
      withdrawals = 0,
      closingBalance = amount item\<rparr>"

definition calculateStatements :: "Transaction list \<Rightarrow> FinancialStatements" where
  "calculateStatements transactions =
     (let trialBalance = buildTrialBalance transactions;
          revenueItems = map (\<lambda>i. \<lparr>label = tb_accountName i, amount = tb_credit i - tb_debit i,
                                     isTotal = None\<rparr>)
                             (filter (\<lambda>i. tb_category i = REVENUE) trialBalance);
          expenseItems = map (\<lambda>i. \<lparr>label = tb_accountName i, amount = tb_debit i - tb_credit i,
                                     isTotal = None\<rparr>)
                             (filter (\<lambda>i. tb_category i = EXPENSE) trialBalance);
          totalRev = sumAmounts revenueItems;
          totalExp = sumAmounts expenseItems;
          netInc = totalRev - totalExp;
          assetItems = map (\<lambda>i. \<lparr>label = tb_accountName i, amount = tb_debit i - tb_credit i,
                                   isTotal = None\<rparr>)
                           (filter (\<lambda>i. tb_category i = ASSET) trialBalance);
          liabilityItems = map (\<lambda>i. \<lparr>label = tb_accountName i,
                                       amount = tb_credit i - tb_debit i, isTotal = None\<rparr>)
                               (filter (\<lambda>i. tb_category i = LIABILITY) trialBalance);
          rawEquityItems = map (\<lambda>i. \<lparr>label = tb_accountName i,
                                       amount = tb_credit i - tb_debit i, isTotal = None\<rparr>)
                               (filter (\<lambda>i. tb_category i = EQUITY) trialBalance);
          balanceSheetEquity =
            rawEquityItems @ [\<lparr>label = ''Current Period Earnings'', amount = netInc,
                                isTotal = None\<rparr>];
          totalAssets = sumAmounts assetItems;
          totalLiabilities = sumAmounts liabilityItems;
          totalEquity = sumAmounts balanceSheetEquity;
          equityChanges =
            map equityChange rawEquityItems
            @ [\<lparr>ec_accountName = ''Retained Earnings'', openingBalance = 0, additions = 0,
                 ec_netIncome = netInc, withdrawals = 0, closingBalance = netInc\<rparr>];
          (op', inv', fin') =
            fold cashFlowStep
              (filter (\<lambda>tx. list_ex (\<lambda>acc. str_includes (tx_accountName tx) acc) cashAccounts)
                 transactions)
              ([], [], []);
          notes =
            [\<lparr>noteNumber = 1, title = ''Basis of Preparation'',
              content = ''The financial statements have been prepared on the historical cost basis in accordance with International Financial Reporting Standards (IFRS).'',
              data = None\<rparr>,
             \<lparr>noteNumber = 2, title = ''Revenue Recognition'',
              content = ''Revenue is recognized when the significant risks and rewards of ownership have been transferred to the customer. For this period, revenue primarily consists of product sales.'',
              data = Some revenueItems\<rparr>,
             \<lparr>noteNumber = 3, title = ''Cash and Cash Equivalents'',
              content = ''Cash and cash equivalents comprise cash on hand and demand deposits with banks.'',
              data = Some (filter (\<lambda>a. list_ex (\<lambda>ca. str_includes (label a) ca) cashAccounts)
                             assetItems)\<rparr>,
             \<lparr>noteNumber = 4, title = ''Property, Plant and Equipment'',
              content = ''Equipment is stated at cost less accumulated depreciation. Depreciation is calculated on a straight-line basis over the estimated useful lives of the assets.'',
              data = Some (filter (\<lambda>a. \<not> list_ex (\<lambda>ca. str_includes (label a) ca) cashAccounts)
                             assetItems)\<rparr>]
      in \<lparr>trialBalance = trialBalance,
          incomeStatement = \<lparr>revenue = revenueItems, expenses = expenseItems,
                             totalRevenue = totalRev, totalExpenses = totalExp,
                             netIncome = netInc\<rparr>,
          balanceSheet = \<lparr>assets = assetItems, liabilities = liabilityItems,
                          equity = balanceSheetEquity, totalAssets = totalAssets,
                          totalLiabilities = totalLiabilities, totalEquity = totalEquity\<rparr>,
          cashFlow = \<lparr>operating = op', investing = inv', financing = fin',
                      netCashFlow = totalAssets - totalLiabilities - totalEquity + netInc\<rparr>,
          equityChanges = equityChanges,
          fs_notes = notes,
          variance = \<lparr>revenueActual = totalRev, revenueBudget = 65000,
                      expenseActual = totalExp, expenseBudget = 15000\<rparr>\<rparr>)"

section \<open>Monthly trend (getTrendData)\<close>

text \<open>
  \<open>new Date(tx.date).getMonth()\<close> belongs to the platform and depends on its time
  zone; it is the parameter \<open>getMonth\<close>, which gives the month index of a date string, or
  \<open>None\<close> where JavaScript gives \<open>NaN\<close> (an invalid date).  \<open>months[monthIndex]\<close> is
  \<open>undefined\<close> out of range, so the keys of \<open>dataMap\<close> are \<open>string option\<close>.
\<close>

definition months :: "string list" where
  "months = [''Jan'', ''Feb'', ''Mar'', ''Apr'', ''May'', ''Jun'',
             ''Jul'', ''Aug'', ''Sep'', ''Oct'', ''Nov'', ''Dec'']"

definition monthLabelOf :: "(string \<Rightarrow> nat option) \<Rightarrow> Transaction \<Rightarrow> string option" where
  "monthLabelOf getMonth tx =
     (case getMonth (tx_date tx) of
        None \<Rightarrow> None
      | Some monthIndex \<Rightarrow> (if monthIndex < length months then Some (months ! monthIndex)
                            else None))"

definition trendStep ::
  "(string \<Rightarrow> nat option) \<Rightarrow> Transaction \<Rightarrow> (string option \<times> TrendTotals) list
    \<Rightarrow> (string option \<times> TrendTotals) list" where
  "trendStep getMonth tx dataMap =
     (let monthLabel = monthLabelOf getMonth tx;
          current = (case map_of dataMap monthLabel of
                       Some c \<Rightarrow> c
                     | None \<Rightarrow> \<lparr>tt_revenue = 0, tt_expense = 0, tt_profit = 0\<rparr>);
          current' = (if tx_category tx = REVENUE
                      then current\<lparr>tt_revenue := tt_revenue current + tx_amount tx\<rparr>
                      else if tx_category tx = EXPENSE
                      then current\<lparr>tt_expense := tt_expense current + tx_amount tx\<rparr>
                      else current);
          current'' = current'\<lparr>tt_profit := tt_revenue current' - tt_expense current'\<rparr>
      in AList.update monthLabel current'' dataMap)"

definition getTrendData :: "(string \<Rightarrow> nat option) \<Rightarrow> Transaction list \<Rightarrow> TrendPoint list" where
  "getTrendData getMonth transactions =
     (let dataMap = fold (trendStep getMonth) transactions [] in
      map (\<lambda>m. case map_of dataMap (Some m) of
                  Some c \<Rightarrow> \<lparr>month = m, tp_revenue = tt_revenue c, tp_expense = tt_expense c,
                             tp_profit = tt_profit c\<rparr>
                | None \<Rightarrow> \<lparr>month = m, tp_revenue = 0, tp_expense = 0, tp_profit = 0\<rparr>)
          months)"

text \<open>
  The same loop with the addition of \<open>current.revenue += tx.amount\<close> and
  \<open>current.expense += tx.amount\<close> and the subtraction of \<open>current.profit\<close> as
  parameters.
\<close>

definition trendStepWith ::
  "(real \<Rightarrow> real \<Rightarrow> real) \<Rightarrow> (real \<Rightarrow> real \<Rightarrow> real) \<Rightarrow> (string \<Rightarrow> nat option) \<Rightarrow> Transaction
    \<Rightarrow> (string option \<times> TrendTotals) list \<Rightarrow> (string option \<times> TrendTotals) list" where
  "trendStepWith add sub getMonth tx dataMap =
     (let monthLabel = monthLabelOf getMonth tx;
          current = (case map_of dataMap monthLabel of
                       Some c \<Rightarrow> c
                     | None \<Rightarrow> \<lparr>tt_revenue = 0, tt_expense = 0, tt_profit = 0\<rparr>);
          current' = (if tx_category tx = REVENUE
                      then current\<lparr>tt_revenue := add (tt_revenue current) (tx_amount tx)\<rparr>
                      else if tx_category tx = EXPENSE
                      then current\<lparr>tt_expense := add (tt_expense current) (tx_amount tx)\<rparr>
                      else current);
          current'' = current'\<lparr>tt_profit := sub (tt_revenue current') (tt_expense current')\<rparr>
      in AList.update monthLabel current'' dataMap)"

definition getTrendDataWith ::
  "(real \<Rightarrow> real \<Rightarrow> real) \<Rightarrow> (real \<Rightarrow> real \<Rightarrow> real) \<Rightarrow> (string \<Rightarrow> nat option)
    \<Rightarrow> Transaction list \<Rightarrow> TrendPoint list" where
  "getTrendDataWith add sub getMonth transactions =
     (let dataMap = fold (trendStepWith add sub getMonth) transactions [] in
      map (\<lambda>m. case map_of dataMap (Some m) of
                  Some c \<Rightarrow> \<lparr>month = m, tp_revenue = tt_revenue c, tp_expense = tt_expense c,
                             tp_profit = tt_profit c\<rparr>
                | None \<Rightarrow> \<lparr>month = m, tp_revenue = 0, tp_expense = 0, tp_profit = 0\<rparr>)
          months)"

section \<open>The platform: IEEE doubles and dates\<close>

text \<open>
  The addition of two finite doubles is their exact sum rounded to the nearest double, a
  tie going to the double whose last significand bit is even.  Around a value \<open>x\<close> with
  \<open>2 ^ e \<le> |x| < 2 ^ (e + 1)\<close> the doubles are the multiples of \<open>2 ^ (e - 52)\<close>, and
  of \<open>2 ^ (- 1074)\<close> in the subnormal range.  \<open>bitLength\<close> counts the binary digits of a
  natural number, \<open>exponentOf\<close> is the \<open>e\<close> of a positive value, \<open>pow2\<close> a power of
  two with an integer exponent.  A sum beyond the largest double, which the platform turns
  into an infinity, is outside the model.
\<close>

fun bitLength :: "nat \<Rightarrow> nat" where
  "bitLength n = (if n = 0 then 0 else Suc (bitLength (n div 2)))"

definition exponentOf :: "real \<Rightarrow> int" where
  "exponentOf x =
     (if 1 \<le> x then int (bitLength (nat \<lfloor>x\<rfloor>)) - 1
      else - int (bitLength (nat (\<lceil>1 / x\<rceil> - 1))))"

definition pow2 :: "int \<Rightarrow> real" where
  "pow2 k = (if 0 \<le> k then 2 ^ nat k else 1 / 2 ^ nat (- k))"

definition roundHalfEven :: "real \<Rightarrow> int" where
  "roundHalfEven y =
     (let f = \<lfloor>y\<rfloor>; d = y - of_int f
      in if d < 1 / 2 then f else if 1 / 2 < d then f + 1 else if even f then f else f + 1)"

definition roundDouble :: "real \<Rightarrow> real" where
  "roundDouble x =
     (if x = 0 then 0
      else (let spacing = pow2 (max (exponentOf \<bar>x\<bar> - 52) (- 1074))
            in of_int (roundHalfEven (x / spacing)) * spacing))"

definition fadd :: "real \<Rightarrow> real \<Rightarrow> real" where
  "fadd x y = roundDouble (x + y)"

definition fsub :: "real \<Rightarrow> real \<Rightarrow> real" where
  "fsub x y = roundDouble (x - y)"

text \<open>
  \<open>new Date(s).getMonth()\<close> for a date-only string \<open>YYYY-MM-DD\<close>, where local time is
  \<open>offset\<close> minutes ahead of UTC (negative west of Greenwich): the platform reads such a
  string as midnight UTC, lets a day number up to 31 that is past the end of the month run
  into the next month (as the V8 engine does), and answers with the month of the local
  date, which west of Greenwich is the day before.  Strings of other forms, which the
  platform may also read, are outside this reader: it gives \<open>None\<close> for them.
  \<open>calendarMonth\<close> is the month written in a date-only string that names a day of the
  calendar.
\<close>

definition digitVal :: "char \<Rightarrow> nat option" where
  "digitVal c =
     (let n = (of_char c :: nat) in if 48 \<le> n \<and> n \<le> 57 then Some (n - 48) else None)"

definition isLeapYear :: "nat \<Rightarrow> bool" where
  "isLeapYear y \<longleftrightarrow> y mod 4 = 0 \<and> (y mod 100 \<noteq> 0 \<or> y mod 400 = 0)"

definition daysInMonth :: "nat \<Rightarrow> nat \<Rightarrow> nat" where
  "daysInMonth y m =
     (if m = 2 then (if isLeapYear y then 29 else 28)
      else if m = 4 \<or> m = 6 \<or> m = 9 \<or> m = 11 then 30 else 31)"

definition parseDateOnly :: "string \<Rightarrow> (nat \<times> nat \<times> nat) option" where
  "parseDateOnly s =
     (case s of
        [y1, y2, y3, y4, h1, m1, m2, h2, d1, d2] \<Rightarrow>
          (if h1 = CHR ''-'' \<and> h2 = CHR ''-'' then
             (case (digitVal y1, digitVal y2, digitVal y3, digitVal y4,
                    digitVal m1, digitVal m2, digitVal d1, digitVal d2) of
                (Some a, Some b, Some c, Some d, Some e, Some f, Some g, Some h) \<Rightarrow>
                  (if 1 \<le> 10 * e + f \<and> 10 * e + f \<le> 12 \<and> 1 \<le> 10 * g + h \<and> 10 * g + h \<le> 31
                   then Some (1000 * a + 100 * b + 10 * c + d, 10 * e + f, 10 * g + h)
                   else None)
              | _ \<Rightarrow> None)
           else None)
      | _ \<Rightarrow> None)"

definition platformMonth :: "int \<Rightarrow> string \<Rightarrow> nat option" where
  "platformMonth offset s =
     (case parseDateOnly s of
        None \<Rightarrow> None
      | Some (y, m, d) \<Rightarrow>
          (let over = daysInMonth y m < d;
               utcMonth = (if over then m + 1 else m);
               utcDay = (if over then d - daysInMonth y m else d);
               utcIndex = utcMonth - 1
           in Some (if offset < 0 \<and> utcDay = 1 then (utcIndex + 11) mod 12 else utcIndex)))"

definition calendarMonth :: "string \<Rightarrow> nat option" where
  "calendarMonth s =
     (case parseDateOnly s of
        None \<Rightarrow> None
      | Some (y, m, d) \<Rightarrow> (if d \<le> daysInMonth y m then Some (m - 1) else None))"

section \<open>Specification-level definitions\<close>

text \<open>
  The reconciliation as the specification words it.  The pool holds the statement entries
  not yet consumed, in statement order.  Each book entry, in input order, takes the first
  entry of the pool with its date and its signed amount (\<open>+amount\<close> for a debit,
  \<open>-amount\<close> for a credit) and is reported as matched with it, the entry leaving the
  pool; a book entry that finds none is reported as missing in the statement.  After the
  last book entry every entry still in the pool is reported as missing in the book.
\<close>

definition signedAmount :: "Transaction \<Rightarrow> real" where
  "signedAmount b = (case tx_type b of DEBIT \<Rightarrow> tx_amount b | CREDIT \<Rightarrow> - tx_amount b)"

fun reconcile_spec :: "Transaction list \<Rightarrow> BankStatementItem list \<Rightarrow> ReconMatch list" where
  "reconcile_spec [] pool =
     map (\<lambda>s. \<lparr>bookEntry = None, statementEntry = Some s, status = missing_in_book\<rparr>) pool"
| "reconcile_spec (b # bs) pool =
     (case List.find (\<lambda>s. st_date s = tx_date b \<and> st_amount s = signedAmount b) pool of
        Some m \<Rightarrow> \<lparr>bookEntry = Some b, statementEntry = Some m, status = matched\<rparr>
                  # reconcile_spec bs (remove1 m pool)
      | None \<Rightarrow> \<lparr>bookEntry = Some b, statementEntry = None, status = missing_in_statement\<rparr>
                # reconcile_spec bs pool)"

text \<open>
  Two notions for the proofs: the statement entries whose id is not in a set of consumed ids,
  and two statement entries of the same date and amount.
\<close>

definition pool :: "string set \<Rightarrow> BankStatementItem list \<Rightarrow> BankStatementItem list" where
  "pool ids sts = filter (\<lambda>s. st_id s \<notin> ids) sts"

definition sameKey :: "BankStatementItem \<Rightarrow> BankStatementItem \<Rightarrow> bool" where
  "sameKey s s' \<longleftrightarrow> st_date s = st_date s' \<and> st_amount s = st_amount s'"

text \<open>The number of records of a given status in a reconciliation.\<close>

definition countStatus :: "ReconStatus \<Rightarrow> ReconMatch list \<Rightarrow> nat" where
  "countStatus s rs = length (filter (\<lambda>r. status r = s) rs)"

text \<open>
  Two statement lists that differ only by a reordering of value-identical entries: one is
  a permutation of the other, and every position holds the same date and amount in both.
\<close>

definition reordersIdentical :: "BankStatementItem list \<Rightarrow> BankStatementItem list \<Rightarrow> bool" where
  "reordersIdentical sts sts' \<longleftrightarrow>
     mset sts' = mset sts \<and>
     map (\<lambda>s. (st_date s, st_amount s)) sts' = map (\<lambda>s. (st_date s, st_amount s)) sts"

text \<open>
  The trial balance as the specification words it: the account names in first-seen order,
  and, for an account name, the total of its debit amounts, the total of its credit
  amounts and the category of the first transaction that names it.
\<close>

definition firstSeen :: "'a list \<Rightarrow> 'a list" where
  "firstSeen xs = rev (remdups (rev xs))"

definition debitTotal :: "string \<Rightarrow> Transaction list \<Rightarrow> real" where
  "debitTotal n txs =
     sum_list (map tx_amount (filter (\<lambda>t. tx_accountName t = n \<and> tx_type t = DEBIT) txs))"

definition creditTotal :: "string \<Rightarrow> Transaction list \<Rightarrow> real" where
  "creditTotal n txs =
     sum_list (map tx_amount (filter (\<lambda>t. tx_accountName t = n \<and> tx_type t = CREDIT) txs))"

definition firstCategory :: "string \<Rightarrow> Transaction list \<Rightarrow> AccountCategory option" where
  "firstCategory n txs = map_option tx_category (List.find (\<lambda>t. tx_accountName t = n) txs)"

text \<open>The trial-balance item of an entry of the account map.\<close>

definition toItem :: "string \<times> AccountData \<Rightarrow> TrialBalanceItem" where
  "toItem p = \<lparr>tb_accountName = fst p, tb_category = category (snd p),
               tb_debit = debit (snd p), tb_credit = credit (snd p)\<rparr>"

text \<open>The sum of the amounts of the transactions of one type: a ledger is balanced when
  the two sums agree.\<close>

definition typeTotal :: "TransactionType \<Rightarrow> Transaction list \<Rightarrow> real" where
  "typeTotal ty txs = sum_list (map tx_amount (filter (\<lambda>t. tx_type t = ty) txs))"

definition balanced :: "Transaction list \<Rightarrow> bool" where
  "balanced txs \<longleftrightarrow> typeTotal DEBIT txs = typeTotal CREDIT txs"





section \<open>Sample data\<close>

text \<open>\<open>sampleTransactions\<close> and \<open>sampleBankStatement\<close> of the source.\<close>

definition mkTx ::
  "string \<Rightarrow> string \<Rightarrow> string \<Rightarrow> string \<Rightarrow> AccountCategory \<Rightarrow> real \<Rightarrow> TransactionType
    \<Rightarrow> Transaction" where
  "mkTx i d ds a c am ty =
     \<lparr>tx_id = i, tx_date = d, tx_description = ds, tx_accountName = a, tx_category = c,
      tx_amount = am, tx_type = ty\<rparr>"

definition sampleTransactions :: "Transaction list" where
  "sampleTransactions =
     [mkTx ''1'' ''2023-10-01'' ''Initial Capital'' ''Cash'' ASSET 50000 DEBIT,
      mkTx ''2'' ''2023-10-01'' ''Initial Capital'' ''Common Stock'' EQUITY 50000 CREDIT,
      mkTx ''3'' ''2023-10-05'' ''Monthly Rent'' ''Rent Expense'' EXPENSE 2000 DEBIT,
      mkTx ''4'' ''2023-10-05'' ''Monthly Rent'' ''Cash'' ASSET 2000 CREDIT,
      mkTx ''5'' ''2023-10-10'' ''Product Sale'' ''Cash'' ASSET 12000 DEBIT,
      mkTx ''6'' ''2023-10-10'' ''Product Sale'' ''Sales Revenue'' REVENUE 12000 CREDIT,
      mkTx ''7'' ''2023-10-15'' ''Office Equipment'' ''Equipment'' ASSET 5000 DEBIT,
      mkTx ''8'' ''2023-10-15'' ''Office Equipment'' ''Cash'' ASSET 5000 CREDIT,
      mkTx ''9'' ''2023-10-20'' ''Employee Salaries'' ''Payroll Expense'' EXPENSE 4500 DEBIT,
      mkTx ''10'' ''2023-10-20'' ''Employee Salaries'' ''Cash'' ASSET 4500 CREDIT,
      mkTx ''11'' ''2023-09-10'' ''Prior Sale'' ''Sales Revenue'' REVENUE 40000 CREDIT,
      mkTx ''12'' ''2023-09-15'' ''Prior Rent'' ''Rent Expense'' EXPENSE 2000 DEBIT]"

definition mkSt :: "string \<Rightarrow> string \<Rightarrow> string \<Rightarrow> real \<Rightarrow> BankStatementItem" where
  "mkSt i d ds am = \<lparr>st_id = i, st_date = d, st_description = ds, st_amount = am\<rparr>"

definition sampleBankStatement :: "BankStatementItem list" where
  "sampleBankStatement =
     [mkSt ''st1'' ''2023-10-01'' ''DEPOSIT CAPITAL'' 50000,
      mkSt ''st2'' ''2023-10-05'' ''CHECK #101 RENT'' (-2000),
      mkSt ''st3'' ''2023-10-10'' ''POS CREDIT SALE'' 12000,
      mkSt ''st4'' ''2023-10-15'' ''EQUIPMENT PURCHASE'' (-5000),
      mkSt ''st5'' ''2023-10-22'' ''BANK FEE'' (-25)]"

text \<open>
  Smaller fixtures: the balanced ledger of three debit/credit pairs that the specification
  gives as an example, a balanced ledger with one equity account above the threshold of
  the roll-forward and one below, the book entries of the account \<open>Cash\<close>, a statement
  with two value-identical entries and the same statement with the two exchanged.
\<close>

definition pairedLedger :: "Transaction list" where
  "pairedLedger =
     [mkTx ''1'' ''2023-10-01'' ''Initial Capital'' ''Cash'' ASSET 50000 DEBIT,
      mkTx ''2'' ''2023-10-01'' ''Initial Capital'' ''Common Stock'' EQUITY 50000 CREDIT,
      mkTx ''3'' ''2023-10-05'' ''Monthly Rent'' ''Rent Expense'' EXPENSE 2000 DEBIT,
      mkTx ''4'' ''2023-10-05'' ''Monthly Rent'' ''Cash'' ASSET 2000 CREDIT,
      mkTx ''5'' ''2023-10-10'' ''Product Sale'' ''Cash'' ASSET 12000 DEBIT,
      mkTx ''6'' ''2023-10-10'' ''Product Sale'' ''Sales Revenue'' REVENUE 12000 CREDIT]"

definition capitalLedger :: "Transaction list" where
  "capitalLedger =
     [mkTx ''1'' ''2023-10-01'' ''Initial Capital'' ''Cash'' ASSET 80000 DEBIT,
      mkTx ''2'' ''2023-10-01'' ''Initial Capital'' ''Common Stock'' EQUITY 80000 CREDIT,
      mkTx ''3'' ''2023-10-02'' ''Owner Loan'' ''Cash'' ASSET 20000 DEBIT,
      mkTx ''4'' ''2023-10-02'' ''Owner Loan'' ''Owner Capital'' EQUITY 20000 CREDIT,
      mkTx ''5'' ''2023-10-10'' ''Product Sale'' ''Cash'' ASSET 12000 DEBIT,
      mkTx ''6'' ''2023-10-10'' ''Product Sale'' ''Sales Revenue'' REVENUE 12000 CREDIT]"

definition cashBook :: "Transaction list" where
  "cashBook =
     [mkTx ''1'' ''2023-10-01'' ''Initial Capital'' ''Cash'' ASSET 50000 DEBIT,
      mkTx ''4'' ''2023-10-05'' ''Monthly Rent'' ''Cash'' ASSET 2000 CREDIT]"

definition twinStatement :: "BankStatementItem list" where
  "twinStatement =
     [mkSt ''a'' ''2023-10-05'' ''CHECK #101'' (-2000),
      mkSt ''b'' ''2023-10-05'' ''CHECK #102'' (-2000),
      mkSt ''c'' ''2023-10-22'' ''BANK FEE'' (-25)]"

definition twinStatementSwapped :: "BankStatementItem list" where
  "twinStatementSwapped =
     [mkSt ''b'' ''2023-10-05'' ''CHECK #102'' (-2000),
      mkSt ''a'' ''2023-10-05'' ''CHECK #101'' (-2000),
      mkSt ''c'' ''2023-10-22'' ''BANK FEE'' (-25)]"

text \<open>
  A statement in which two entries share the id \<open>a\<close>, the same statement with its two
  value-identical entries exchanged, and two book entries.
\<close>

definition sharedIdStatement :: "BankStatementItem list" where
  "sharedIdStatement =
     [mkSt ''a'' ''2023-10-05'' ''CHECK #101'' (-2000),
      mkSt ''b'' ''2023-10-05'' ''CHECK #102'' (-2000),
      mkSt ''a'' ''2023-10-22'' ''BANK FEE'' (-25)]"

definition sharedIdStatementSwapped :: "BankStatementItem list" where
  "sharedIdStatementSwapped =
     [mkSt ''b'' ''2023-10-05'' ''CHECK #102'' (-2000),
      mkSt ''a'' ''2023-10-05'' ''CHECK #101'' (-2000),
      mkSt ''a'' ''2023-10-22'' ''BANK FEE'' (-25)]"

definition feeBook :: "Transaction list" where
  "feeBook =
     [mkTx ''4'' ''2023-10-05'' ''Monthly Rent'' ''Cash'' ASSET 2000 CREDIT,
      mkTx ''13'' ''2023-10-22'' ''Bank Fee'' ''Cash'' ASSET 25 CREDIT]"

text \<open>
  The doubles nearest to 0.1, 0.2 and 0.3, three debits of these amounts to one account, and
  two sales dated on the first of October.
\<close>

definition dbl01 :: real where "dbl01 = 3602879701896397 / 2 ^ 55"
definition dbl02 :: real where "dbl02 = 3602879701896397 / 2 ^ 54"
definition dbl03 :: real where "dbl03 = 5404319552844595 / 2 ^ 54"

definition tenthsLedger :: "Transaction list" where
  "tenthsLedger =
     [mkTx ''1'' ''2023-10-02'' ''Postage'' ''Office Supplies'' EXPENSE dbl01 DEBIT,
      mkTx ''2'' ''2023-10-03'' ''Postage'' ''Office Supplies'' EXPENSE dbl02 DEBIT,
      mkTx ''3'' ''2023-10-04'' ''Postage'' ''Office Supplies'' EXPENSE dbl03 DEBIT]"


section \<open>Properties of the reconciliation\<close>

lemma reconBook_statuses:
  assumes "set (map status (fst state)) \<subseteq> {matched, missing_in_statement, missing_in_book}"
  shows "set (map status (fst (reconBook sts book state)))
           \<subseteq> {matched, missing_in_statement, missing_in_book}"
  using assms by (cases state) (auto simp: reconBook_def split: option.splits)

lemma fold_reconBook_statuses:
  assumes "set (map status (fst state)) \<subseteq> {matched, missing_in_statement, missing_in_book}"
  shows "set (map status (fst (fold (reconBook sts) books state)))
           \<subseteq> {matched, missing_in_statement, missing_in_book}"
  using assms
proof (induction books arbitrary: state)
  case Nil
  then show ?case by simp
next
  case (Cons b bs)
  from Cons.prems have "set (map status (fst (reconBook sts b state)))
      \<subseteq> {matched, missing_in_statement, missing_in_book}"
    by (rule reconBook_statuses)
  then show ?case using Cons.IH by simp
qed

lemma fold_reconStatement_statuses:
  assumes "set (map status ms) \<subseteq> {matched, missing_in_statement, missing_in_book}"
  shows "set (map status (fold (reconStatement ids) sts ms))
           \<subseteq> {matched, missing_in_statement, missing_in_book}"
  using assms by (induction sts arbitrary: ms) (auto simp: reconStatement_def)

text \<open>
  C9.  Whatever the book entries and the statement entries are, every record returned by
  \<open>performBankReconciliation\<close> has status \<open>matched\<close>, \<open>missing_in_statement\<close> or
  \<open>missing_in_book\<close>; the status \<open>amount_mismatch\<close> never occurs in the output.
\<close>

theorem recon_never_amount_mismatch:
  "r \<in> set (performBankReconciliation bookEntries statementEntries) \<Longrightarrow>
     status r \<noteq> amount_mismatch \<and>
     status r \<in> {matched, missing_in_statement, missing_in_book}"
proof -
  assume r: "r \<in> set (performBankReconciliation bookEntries statementEntries)"
  obtain ms ids where f: "fold (reconBook statementEntries) bookEntries ([], {}) = (ms, ids)"
    by (cases "fold (reconBook statementEntries) bookEntries ([], {})")
  have "set (map status (fst (fold (reconBook statementEntries) bookEntries ([], {}))))
          \<subseteq> {matched, missing_in_statement, missing_in_book}"
    by (rule fold_reconBook_statuses) simp
  with f have "set (map status ms) \<subseteq> {matched, missing_in_statement, missing_in_book}"
    by simp
  then have "set (map status (fold (reconStatement ids) statementEntries ms))
          \<subseteq> {matched, missing_in_statement, missing_in_book}"
    by (rule fold_reconStatement_statuses)
  with r f have "status r \<in> {matched, missing_in_statement, missing_in_book}"
    by (auto simp: performBankReconciliation_def)
  then show ?thesis by auto
qed

lemma bookAmount_signed: "bookAmount b = signedAmount b"
  by (cases "tx_type b") (simp_all add: bookAmount_def signedAmount_def)

lemma find_conj_filter: "List.find (\<lambda>x. P x \<and> Q x) xs = List.find P (filter Q xs)"
  by (induction xs) auto

lemma filter_neq_remove1:
  "distinct (map f xs) \<Longrightarrow> m \<in> set xs \<Longrightarrow> filter (\<lambda>s. f s \<noteq> f m) xs = remove1 m xs"
proof (induction xs)
  case Nil
  then show ?case by simp
next
  case (Cons x xs)
  show ?case
  proof (cases "x = m")
    case True
    with Cons.prems have "f m \<notin> f ` set xs" by simp
    then have "\<forall>s\<in>set xs. f s \<noteq> f m" by (metis imageI)
    then have "filter (\<lambda>s. f s \<noteq> f m) xs = xs" by (simp add: filter_id_conv)
    with True show ?thesis by simp
  next
    case False
    with Cons.prems have m: "m \<in> set xs" and d: "distinct (map f xs)" and "f x \<noteq> f m"
      by auto
    with Cons.IH False show ?thesis by simp
  qed
qed

lemma pool_insert:
  assumes "distinct (map st_id sts)" "m \<in> set (pool ids sts)"
  shows "pool (insert (st_id m) ids) sts = remove1 m (pool ids sts)"
proof -
  have d: "distinct (map st_id (pool ids sts))"
    using assms(1) unfolding pool_def by (simp add: distinct_map_filter)
  have "pool (insert (st_id m) ids) sts = filter (\<lambda>s. st_id s \<noteq> st_id m) (pool ids sts)"
    unfolding pool_def by (auto intro: filter_cong)
  also have "\<dots> = remove1 m (pool ids sts)"
    using d assms(2) by (rule filter_neq_remove1)
  finally show ?thesis .
qed

lemma fold_reconStatement:
  "fold (reconStatement ids) sts ms =
     ms @ map (\<lambda>s. \<lparr>bookEntry = None, statementEntry = Some s, status = missing_in_book\<rparr>)
            (pool ids sts)"
  by (induction sts arbitrary: ms) (simp_all add: reconStatement_def pool_def)

lemma recon_loop_refines:
  assumes "distinct (map st_id sts)"
  shows "(case fold (reconBook sts) books (ms, ids) of
            (ms', ids') \<Rightarrow> fold (reconStatement ids') sts ms')
         = ms @ reconcile_spec books (pool ids sts)"
proof (induction books arbitrary: ms ids)
  case Nil
  show ?case by (simp add: fold_reconStatement)
next
  case (Cons b bs)
  let ?P = "\<lambda>s. st_date s = tx_date b \<and> st_amount s = signedAmount b"
  have f: "List.find (\<lambda>st. st_date st = tx_date b \<and> st_amount st = bookAmount b
                                \<and> st_id st \<notin> ids) sts = List.find ?P (pool ids sts)"
    unfolding pool_def bookAmount_signed
    using find_conj_filter [of ?P "\<lambda>s. st_id s \<notin> ids" sts] by simp
  show ?case
  proof (cases "List.find ?P (pool ids sts)")
    case None
    with f have "reconBook sts b (ms, ids) =
        (ms @ [\<lparr>bookEntry = Some b, statementEntry = None, status = missing_in_statement\<rparr>], ids)"
      by (simp add: reconBook_def)
    with None Cons.IH show ?thesis by simp
  next
    case (Some m)
    then have m: "m \<in> set (pool ids sts)" by (auto simp: find_Some_iff)
    from Some f have "reconBook sts b (ms, ids) =
        (ms @ [\<lparr>bookEntry = Some b, statementEntry = Some m, status = matched\<rparr>],
         insert (st_id m) ids)"
      by (simp add: reconBook_def)
    with Some Cons.IH pool_insert [OF assms m] show ?thesis by simp
  qed
qed

lemma recon_refines:
  assumes "distinct (map st_id sts)"
  shows "performBankReconciliation books sts = reconcile_spec books sts"
  using recon_loop_refines [OF assms, of books "[]" "{}"]
  by (simp add: performBankReconciliation_def pool_def)


lemma find_remove1_related:
  assumes "list_all2 R xs ys" and "\<And>x y. R x y \<Longrightarrow> P x = P y"
  shows "(List.find P xs = None \<and> List.find P ys = None) \<or>
         (\<exists>m m'. List.find P xs = Some m \<and> List.find P ys = Some m' \<and>
                  list_all2 R (remove1 m xs) (remove1 m' ys))"
  using assms(1)
proof (induction rule: list_all2_induct)
  case Nil
  then show ?case by simp
next
  case (Cons x xs y ys)
  from Cons.hyps(1) have px: "P x = P y" by (rule assms(2))
  show ?case
  proof (cases "P x")
    case True
    with px Cons.hyps(2) show ?thesis by simp
  next
    case False
    from Cons.IH show ?thesis
    proof
      assume "List.find P xs = None \<and> List.find P ys = None"
      with False px show ?thesis by simp
    next
      assume "\<exists>m m'. List.find P xs = Some m \<and> List.find P ys = Some m' \<and>
                  list_all2 R (remove1 m xs) (remove1 m' ys)"
      then obtain m m' where m: "List.find P xs = Some m" and m': "List.find P ys = Some m'"
        and r: "list_all2 R (remove1 m xs) (remove1 m' ys)" by blast
      from m have "P m" by (auto simp: find_Some_iff)
      with False have xm: "x \<noteq> m" by auto
      from m' have "P m'" by (auto simp: find_Some_iff)
      with False px have ym: "y \<noteq> m'" by auto
      from False px m m' xm ym r Cons.hyps(1) show ?thesis by simp
    qed
  qed
qed

lemma reconcile_spec_statuses:
  assumes "list_all2 sameKey xs ys"
  shows "map status (reconcile_spec bs xs) = map status (reconcile_spec bs ys)"
  using assms
proof (induction bs arbitrary: xs ys)
  case Nil
  then have "length xs = length ys" by (rule list_all2_lengthD)
  then show ?case by (simp add: o_def map_replicate_const)
next
  case (Cons b bs)
  let ?P = "\<lambda>s. st_date s = tx_date b \<and> st_amount s = signedAmount b"
  have "(List.find ?P xs = None \<and> List.find ?P ys = None) \<or>
         (\<exists>m m'. List.find ?P xs = Some m \<and> List.find ?P ys = Some m' \<and>
                  list_all2 sameKey (remove1 m xs) (remove1 m' ys))"
    using Cons.prems by (rule find_remove1_related) (simp add: sameKey_def)
  then show ?case
  proof
    assume "List.find ?P xs = None \<and> List.find ?P ys = None"
    with Cons.IH [OF Cons.prems] show ?thesis by simp
  next
    assume "\<exists>m m'. List.find ?P xs = Some m \<and> List.find ?P ys = Some m' \<and>
                  list_all2 sameKey (remove1 m xs) (remove1 m' ys)"
    then obtain m m' where "List.find ?P xs = Some m" "List.find ?P ys = Some m'"
      and "list_all2 sameKey (remove1 m xs) (remove1 m' ys)" by blast
    with Cons.IH [of "remove1 m xs" "remove1 m' ys"] show ?thesis by simp
  qed
qed

lemma map_eq_list_all2: "map f xs = map f ys \<Longrightarrow> list_all2 (\<lambda>a b. f a = f b) xs ys"
  by (induction xs arbitrary: ys) auto

lemma reorder_sameKey:
  assumes "reordersIdentical sts sts'"
  shows "list_all2 sameKey sts' sts"
proof -
  from assms have "map (\<lambda>s. (st_date s, st_amount s)) sts' = map (\<lambda>s. (st_date s, st_amount s)) sts"
    by (simp add: reordersIdentical_def)
  then have "list_all2 (\<lambda>a b. (st_date a, st_amount a) = (st_date b, st_amount b)) sts' sts"
    by (rule map_eq_list_all2)
  moreover have "sameKey = (\<lambda>a b. (st_date a, st_amount a) = (st_date b, st_amount b))"
    by (simp add: sameKey_def fun_eq_iff)
  ultimately show ?thesis by simp
qed

lemma reorder_distinct:
  assumes "reordersIdentical sts sts'" and "distinct (map st_id sts)"
  shows "distinct (map st_id sts')"
proof -
  from assms(1) have "mset (map st_id sts') = mset (map st_id sts)"
    by (simp add: reordersIdentical_def)
  then show ?thesis using assms(2) by (metis mset_eq_imp_distinct_iff)
qed

lemma recon_statuses_stable:
  assumes "distinct (map st_id sts)" and "reordersIdentical sts sts'"
  shows "map status (performBankReconciliation books sts')
         = map status (performBankReconciliation books sts)"
proof -
  have "distinct (map st_id sts')" using assms(2,1) by (rule reorder_distinct)
  then have "performBankReconciliation books sts' = reconcile_spec books sts'"
    by (rule recon_refines)
  moreover have "performBankReconciliation books sts = reconcile_spec books sts"
    using assms(1) by (rule recon_refines)
  moreover have "map status (reconcile_spec books sts') = map status (reconcile_spec books sts)"
    using reorder_sameKey [OF assms(2)] by (rule reconcile_spec_statuses)
  ultimately show ?thesis by simp
qed

lemma countStatus_map: "countStatus s rs = length (filter (\<lambda>x. x = s) (map status rs))"
  by (simp add: countStatus_def filter_map o_def)

lemmas recon_eval = performBankReconciliation_def reconBook_def reconStatement_def
  bookAmount_def mkTx_def mkSt_def

text \<open>
  C3.  Let the statement entries have unique ids, and let a second statement list be a
  permutation of the first that only reorders value-identical entries (every position
  keeps its date and amount).  Then \<open>performBankReconciliation\<close> gives, for the same book
  entries, as many \<open>matched\<close>, as many \<open>missing_in_statement\<close> and as many
  \<open>missing_in_book\<close> records on the second list as on the first.  The statement record
  paired in a matched record may differ: it does for the book entries \<open>cashBook\<close> and the
  statement \<open>twinStatement\<close> with its first two entries exchanged.
\<close>

theorem recon_counts_stable:
  assumes "distinct (map st_id sts)" and "reordersIdentical sts sts'"
  shows "countStatus matched (performBankReconciliation books sts')
           = countStatus matched (performBankReconciliation books sts) \<and>
         countStatus missing_in_statement (performBankReconciliation books sts')
           = countStatus missing_in_statement (performBankReconciliation books sts) \<and>
         countStatus missing_in_book (performBankReconciliation books sts')
           = countStatus missing_in_book (performBankReconciliation books sts) \<and>
         map statementEntry (performBankReconciliation cashBook twinStatementSwapped)
           \<noteq> map statementEntry (performBankReconciliation cashBook twinStatement)"
proof -
  have "map statementEntry (performBankReconciliation cashBook twinStatementSwapped)
           \<noteq> map statementEntry (performBankReconciliation cashBook twinStatement)"
    by (simp add: recon_eval cashBook_def twinStatement_def twinStatementSwapped_def)
  then show ?thesis
    using recon_statuses_stable [OF assms, of books] by (simp add: countStatus_map)
qed

theorem recon_counts_stable_witness:
  "distinct (map st_id twinStatement) \<and> reordersIdentical twinStatement twinStatementSwapped \<and>
   countStatus matched (performBankReconciliation cashBook twinStatementSwapped) = 1 \<and>
   countStatus matched (performBankReconciliation cashBook twinStatement) = 1 \<and>
   countStatus missing_in_statement (performBankReconciliation cashBook twinStatementSwapped)
     = countStatus missing_in_statement (performBankReconciliation cashBook twinStatement) \<and>
   countStatus missing_in_book (performBankReconciliation cashBook twinStatementSwapped)
     = countStatus missing_in_book (performBankReconciliation cashBook twinStatement)"
proof -
  have d: "distinct (map st_id twinStatement)"
    by (simp add: twinStatement_def mkSt_def)
  have r: "reordersIdentical twinStatement twinStatementSwapped"
    by (simp add: reordersIdentical_def twinStatement_def twinStatementSwapped_def mkSt_def)
  have c: "countStatus matched (performBankReconciliation cashBook twinStatement) = 1"
    by (simp add: countStatus_def recon_eval cashBook_def twinStatement_def)
  from recon_counts_stable [OF d r, of cashBook] d r c show ?thesis by simp
qed

text \<open>
  The ids must be unique, as the data model requires of a bank statement: where two
  statement entries share an id, consuming one consumes the other, and the counts depend on
  the order of value-identical entries.
\<close>

lemma recon_shared_ids:
  "reordersIdentical sharedIdStatement sharedIdStatementSwapped \<and>
   map status (performBankReconciliation feeBook sharedIdStatement)
     = [matched, missing_in_statement, missing_in_book] \<and>
   map status (performBankReconciliation feeBook sharedIdStatementSwapped)
     = [matched, matched]"
  by (simp add: reordersIdentical_def recon_eval feeBook_def sharedIdStatement_def
      sharedIdStatementSwapped_def)

text \<open>
  C2.  For statement entries with unique ids, \<open>performBankReconciliation\<close> returns
  exactly what the specification describes (\<open>reconcile_spec\<close>): for each book entry in
  input order a \<open>matched\<close> record with the first not yet consumed statement entry of the
  same date and signed amount, that entry being consumed, or a \<open>missing_in_statement\<close>
  record when there is none; and then a \<open>missing_in_book\<close> record for every statement
  entry never consumed, in statement order.
\<close>

theorem recon_first_match_wins:
  assumes "distinct (map st_id statementEntries)"
  shows "performBankReconciliation bookEntries statementEntries
         = reconcile_spec bookEntries statementEntries"
  using assms by (rule recon_refines)

theorem recon_first_match_wins_witness:
  "distinct (map st_id twinStatement) \<and>
   performBankReconciliation cashBook twinStatement = reconcile_spec cashBook twinStatement \<and>
   map statementEntry (reconcile_spec cashBook twinStatement)
     = [None, Some (mkSt ''a'' ''2023-10-05'' ''CHECK #101'' (-2000)),
        Some (mkSt ''b'' ''2023-10-05'' ''CHECK #102'' (-2000)),
        Some (mkSt ''c'' ''2023-10-22'' ''BANK FEE'' (-25))]"
proof -
  have d: "distinct (map st_id twinStatement)"
    by (simp add: twinStatement_def mkSt_def)
  have e: "map statementEntry (reconcile_spec cashBook twinStatement)
     = [None, Some (mkSt ''a'' ''2023-10-05'' ''CHECK #101'' (-2000)),
        Some (mkSt ''b'' ''2023-10-05'' ''CHECK #102'' (-2000)),
        Some (mkSt ''c'' ''2023-10-22'' ''BANK FEE'' (-25))]"
    by (simp add: cashBook_def twinStatement_def signedAmount_def mkTx_def mkSt_def)
  from recon_first_match_wins [OF d, of cashBook] d e show ?thesis by simp
qed

theorem recon_never_amount_mismatch_witness:
  "\<lparr>bookEntry = None, statementEntry = Some (mkSt ''c'' ''2023-10-22'' ''BANK FEE'' (-25)),
     status = missing_in_book\<rparr> \<in> set (performBankReconciliation cashBook twinStatement) \<and>
   status \<lparr>bookEntry = None, statementEntry = Some (mkSt ''c'' ''2023-10-22'' ''BANK FEE'' (-25)),
     status = missing_in_book\<rparr> \<noteq> amount_mismatch"
proof -
  have m: "\<lparr>bookEntry = None, statementEntry = Some (mkSt ''c'' ''2023-10-22'' ''BANK FEE'' (-25)),
     status = missing_in_book\<rparr> \<in> set (performBankReconciliation cashBook twinStatement)"
    by (simp add: recon_eval cashBook_def twinStatement_def)
  from recon_never_amount_mismatch [OF m] m show ?thesis by simp
qed

section \<open>The fields of the result of calculateStatements\<close>

lemma sumAmounts_sum_list: "sumAmounts items = sum_list (map amount items)"
proof -
  have "foldl (\<lambda>s i. s + amount i) a items = a + sum_list (map amount items)" for a
    by (induction items arbitrary: a) simp_all
  from this [of 0] show ?thesis by (simp add: sumAmounts_def)
qed

lemma cs_trialBalance: "trialBalance (calculateStatements txs) = buildTrialBalance txs"
  by (simp add: calculateStatements_def Let_def split_beta)

lemma cs_incomeStatement:
  "incomeStatement (calculateStatements txs) =
     (let tb = buildTrialBalance txs;
          r = map (\<lambda>i. \<lparr>label = tb_accountName i, amount = tb_credit i - tb_debit i,
                          isTotal = None\<rparr>) (filter (\<lambda>i. tb_category i = REVENUE) tb);
          e = map (\<lambda>i. \<lparr>label = tb_accountName i, amount = tb_debit i - tb_credit i,
                          isTotal = None\<rparr>) (filter (\<lambda>i. tb_category i = EXPENSE) tb)
      in \<lparr>revenue = r, expenses = e, totalRevenue = sumAmounts r, totalExpenses = sumAmounts e,
          netIncome = sumAmounts r - sumAmounts e\<rparr>)"
  by (simp add: calculateStatements_def Let_def split_beta)

lemma cs_balanceSheet:
  "balanceSheet (calculateStatements txs) =
     (let tb = buildTrialBalance txs;
          a = map (\<lambda>i. \<lparr>label = tb_accountName i, amount = tb_debit i - tb_credit i,
                          isTotal = None\<rparr>) (filter (\<lambda>i. tb_category i = ASSET) tb);
          l = map (\<lambda>i. \<lparr>label = tb_accountName i, amount = tb_credit i - tb_debit i,
                          isTotal = None\<rparr>) (filter (\<lambda>i. tb_category i = LIABILITY) tb);
          q = map (\<lambda>i. \<lparr>label = tb_accountName i, amount = tb_credit i - tb_debit i,
                          isTotal = None\<rparr>) (filter (\<lambda>i. tb_category i = EQUITY) tb)
               @ [\<lparr>label = ''Current Period Earnings'',
                    amount = netIncome (incomeStatement (calculateStatements txs)),
                    isTotal = None\<rparr>]
      in \<lparr>assets = a, liabilities = l, equity = q, totalAssets = sumAmounts a,
          totalLiabilities = sumAmounts l, totalEquity = sumAmounts q\<rparr>)"
  by (simp add: calculateStatements_def Let_def split_beta)

lemma cs_cashFlow:
  "cashFlow (calculateStatements txs) =
     (let b = fold cashFlowStep
                (filter (\<lambda>tx. list_ex (\<lambda>acc. str_includes (tx_accountName tx) acc) cashAccounts)
                   txs) ([], [], []);
          s = balanceSheet (calculateStatements txs)
      in \<lparr>operating = fst b, investing = fst (snd b), financing = snd (snd b),
          netCashFlow = totalAssets s - totalLiabilities s - totalEquity s
                        + netIncome (incomeStatement (calculateStatements txs))\<rparr>)"
  by (simp add: calculateStatements_def Let_def split_beta)

lemma cs_equityChanges:
  "equityChanges (calculateStatements txs) =
     map equityChange
       (map (\<lambda>i. \<lparr>label = tb_accountName i, amount = tb_credit i - tb_debit i, isTotal = None\<rparr>)
          (filter (\<lambda>i. tb_category i = EQUITY) (buildTrialBalance txs)))
     @ [\<lparr>ec_accountName = ''Retained Earnings'', openingBalance = 0, additions = 0,
          ec_netIncome = netIncome (incomeStatement (calculateStatements txs)),
          withdrawals = 0,
          closingBalance = netIncome (incomeStatement (calculateStatements txs))\<rparr>]"
  by (simp add: calculateStatements_def Let_def split_beta)

lemma cashFlowStep_investing:
  assumes "list_ex (\<lambda>acc. str_includes (tx_accountName tx) acc) cashAccounts"
  shows "fst (snd (cashFlowStep tx b)) = fst (snd b)"
  using assms by (cases b) (simp add: cashFlowStep_def Let_def)

lemma fold_cashFlowStep_investing:
  assumes "\<forall>tx\<in>set xs. list_ex (\<lambda>acc. str_includes (tx_accountName tx) acc) cashAccounts"
  shows "fst (snd (fold cashFlowStep xs b)) = fst (snd b)"
  using assms by (induction xs arbitrary: b) (simp_all add: cashFlowStep_investing)

text \<open>
  C10.  For every transaction list the list \<open>cashFlow.investing\<close> returned by
  \<open>calculateStatements\<close> is empty: only transactions whose account name contains a
  cash-account substring reach the classifier, and its investing branch asks for an account
  name that contains none.
\<close>

theorem investing_always_empty: "investing (cashFlow (calculateStatements transactions)) = []"
  by (simp add: cs_cashFlow Let_def fold_cashFlowStep_investing)


section \<open>Properties of the platform model\<close>

text \<open>
  \<open>exponentOf\<close> brackets a positive value between two consecutive powers of two, and the
  rounding moves a quotient by at most one half.  At exact addition the loops with a
  parameter are the loops of the model.
\<close>

lemma bitLength_bounds:
  "0 < n \<Longrightarrow> 2 ^ (bitLength n - 1) \<le> n \<and> n < 2 ^ bitLength n"
proof (induction n rule: bitLength.induct)
  case (1 n)
  show ?case
  proof (cases "n div 2 = 0")
    case True
    with "1.prems" have "n = 1" by (simp add: div_eq_0_iff) 
    then show ?thesis by simp
  next
    case False
    with "1.IH" "1.prems" have ih: "2 ^ (bitLength (n div 2) - 1) \<le> n div 2"
      "n div 2 < 2 ^ bitLength (n div 2)" by simp_all
    from False have pos: "0 < bitLength (n div 2)" by simp
    have b: "bitLength n = Suc (bitLength (n div 2))" using "1.prems" by simp
    have "2 ^ (bitLength n - 1) = 2 * 2 ^ (bitLength (n div 2) - 1)"
      using pos b by (cases "bitLength (n div 2)") simp_all
    also have "\<dots> \<le> 2 * (n div 2)" using ih(1) by simp
    also have "\<dots> \<le> n" by simp
    finally have lo: "2 ^ (bitLength n - 1) \<le> n" .
    have "n < 2 * (n div 2) + 2" by presburger
    also have "\<dots> \<le> 2 * 2 ^ bitLength (n div 2)" using ih(2) by simp
    finally have "n < 2 ^ bitLength n" using b by simp
    with lo show ?thesis by simp
  qed
qed


lemma nat_succ_le_pow: "(n::nat) < 2 ^ b \<Longrightarrow> real n + 1 \<le> 2 ^ b"
proof -
  assume "n < 2 ^ b"
  then have "Suc n \<le> 2 ^ b" by simp
  then have "real (Suc n) \<le> real (2 ^ b)" by (simp only: of_nat_le_iff)
  then show ?thesis by simp
qed

lemma nat_pow_le: "2 ^ a \<le> (n::nat) \<Longrightarrow> (2::real) ^ a \<le> real n"
proof -
  assume "2 ^ a \<le> n"
  then have "real (2 ^ a) \<le> real n" by (simp only: of_nat_le_iff)
  then show ?thesis by simp
qed

lemma exponentOf_ge1:
  assumes "1 \<le> x"
  shows "pow2 (exponentOf x) \<le> x \<and> x < pow2 (exponentOf x + 1)"
proof -
  let ?n = "nat \<lfloor>x\<rfloor>"
  from assms have n: "0 < ?n" by simp
  have e: "exponentOf x = int (bitLength ?n) - 1" using assms by (simp add: exponentOf_def)
  from n have bpos: "0 < bitLength ?n" by simp
  from bitLength_bounds [OF n] have lo: "2 ^ (bitLength ?n - 1) \<le> ?n" and hi: "?n < 2 ^ bitLength ?n"
    by simp_all
  have a: "real ?n \<le> x" using assms by simp
  have b: "x < real ?n + 1" using assms by linarith
  have c: "2 ^ (bitLength ?n - 1) \<le> real ?n" using lo by (rule nat_pow_le)
  have d: "real ?n + 1 \<le> 2 ^ bitLength ?n" using hi by (rule nat_succ_le_pow)
  have p: "pow2 (exponentOf x) = 2 ^ (bitLength ?n - 1)"
    using bpos by (simp add: e pow2_def nat_diff_distrib')
  have q: "pow2 (exponentOf x + 1) = 2 ^ bitLength ?n"
    by (simp add: e pow2_def)
  from a b c d show ?thesis unfolding p q by linarith
qed

lemma exponentOf_lt1:
  assumes "0 < x" and "x < 1"
  shows "pow2 (exponentOf x) \<le> x \<and> x < pow2 (exponentOf x + 1)"
proof -
  define y where "y = 1 / x"
  define m where "m = nat (\<lceil>y\<rceil> - 1)"
  define b where "b = bitLength m"
  from assms have y: "1 < y" by (simp add: y_def)
  then have cy: "2 \<le> \<lceil>y\<rceil>" by linarith
  then have m: "0 < m" by (simp add: m_def)
  have e: "exponentOf x = - int b" using assms by (simp add: exponentOf_def b_def m_def y_def)
  from m have bpos: "0 < b" by (simp add: b_def)
  from bitLength_bounds [OF m] have lo: "2 ^ (b - 1) \<le> m" and hi: "m < 2 ^ b"
    by (simp_all add: b_def)
  have "0 \<le> \<lceil>y\<rceil> - 1" using cy by linarith
  then have "real m = of_int (\<lceil>y\<rceil> - 1)" unfolding m_def by (simp only: of_nat_nat)
  then have rm: "real m = of_int \<lceil>y\<rceil> - 1" by simp
  have a: "real m < y" unfolding rm by linarith
  have b': "y \<le> real m + 1" unfolding rm by linarith
  have c: "2 ^ (b - 1) \<le> real m" using lo by (rule nat_pow_le)
  have d: "real m + 1 \<le> 2 ^ b" using hi by (rule nat_succ_le_pow)
  from a c have lo': "2 ^ (b - 1) < y" by linarith
  from b' d have hi': "y \<le> 2 ^ b" by linarith
  have p: "pow2 (exponentOf x) = 1 / 2 ^ b"
    using bpos by (simp add: e pow2_def)
  have q: "pow2 (exponentOf x + 1) = 1 / 2 ^ (b - 1)"
  proof (cases "b = 1")
    case True
    then show ?thesis by (simp add: e pow2_def)
  next
    case False
    with bpos have b1: "1 < b" by simp
    then have "nat (int b - 1) = b - 1" by simp
    with b1 show ?thesis by (simp add: e pow2_def)
  qed
  have xy: "x = 1 / y" using assms by (simp add: y_def)
  have ypos: "0 < y" using y by simp
  have "1 / 2 ^ b \<le> 1 / y" using hi' ypos by (simp add: frac_le)
  then have l: "1 / 2 ^ b \<le> x" by (simp only: xy)
  have "1 / y < 1 / 2 ^ (b - 1)" using lo' by (simp add: frac_less2)
  then have u: "x < 1 / 2 ^ (b - 1)" by (simp only: xy)
  from l u show ?thesis by (simp only: p q)
qed

lemma exponentOf_bounds:
  assumes "0 < x"
  shows "pow2 (exponentOf x) \<le> x \<and> x < pow2 (exponentOf x + 1)"
proof (cases "1 \<le> x")
  case True
  then show ?thesis by (rule exponentOf_ge1)
next
  case False
  with assms show ?thesis by (intro exponentOf_lt1) simp_all
qed

lemma accumulateWith_exact: "accumulateWith (+) = accumulate"
  by (simp add: fun_eq_iff accumulateWith_def accumulate_def)

lemma buildTrialBalanceWith_exact: "buildTrialBalanceWith (+) = buildTrialBalance"
  by (simp add: fun_eq_iff buildTrialBalanceWith_def buildTrialBalance_def accumulateWith_exact)

lemma trendStepWith_exact: "trendStepWith (+) (-) = trendStep"
  by (simp add: fun_eq_iff trendStepWith_def trendStep_def)

lemma getTrendDataWith_exact: "getTrendDataWith (+) (-) = getTrendData"
  by (simp add: fun_eq_iff getTrendDataWith_def getTrendData_def trendStepWith_exact)

lemma roundHalfEven_near: "\<bar>of_int (roundHalfEven y) - y\<bar> \<le> 1 / 2"
  by (simp add: roundHalfEven_def Let_def)

lemmas fl_eval = fadd_def fsub_def roundDouble_def roundHalfEven_def pow2_def exponentOf_def Let_def
  dbl01_def dbl02_def dbl03_def

text \<open>
  In doubles 0.1 + 0.2 is 0.30000000000000004 and 0.1 + 0.2 + 0.3 is 0.6000000000000001,
  while 0.3 + 0.2 + 0.1 is 0.6.
\<close>

lemma fadd_forward: "fadd (fadd (fadd 0 dbl01) dbl02) dbl03 = 1351079888211149 / 2 ^ 51"
  by (simp add: fl_eval)

lemma fadd_backward: "fadd (fadd (fadd 0 dbl03) dbl02) dbl01 = 5404319552844595 / 2 ^ 53"
  by (simp add: fl_eval)


section \<open>Properties of the trial balance\<close>

lemma find_append: "List.find P (xs @ ys) = (case List.find P xs of None \<Rightarrow> List.find P ys | Some x \<Rightarrow> Some x)"
  by (induction xs) simp_all

lemma firstSeen_snoc:
  "firstSeen (xs @ [x]) = (if x \<in> set xs then firstSeen xs else firstSeen xs @ [x])"
  by (simp add: firstSeen_def)

lemma set_firstSeen: "set (firstSeen xs) = set xs"
  by (simp add: firstSeen_def)

lemma distinct_firstSeen: "distinct (firstSeen xs)"
  by (simp add: firstSeen_def)

lemma accumulate_keys:
  "map fst (accumulate tx m) =
     (if tx_accountName tx \<in> set (map fst m) then map fst m else map fst m @ [tx_accountName tx])"
  by (simp add: accumulate_def Let_def update_keys)

lemma accountMap_keys: "map fst (fold accumulate txs []) = firstSeen (map tx_accountName txs)"
proof (induction txs rule: rev_induct)
  case Nil
  show ?case by (simp add: firstSeen_def)
next
  case (snoc t txs)
  have "set (map fst (fold accumulate txs [])) = set (map tx_accountName txs)"
    by (simp only: snoc.IH set_firstSeen)
  with snoc.IH show ?case by (simp add: accumulate_keys firstSeen_snoc)
qed

lemma type_not_debit: "tx_type t \<noteq> DEBIT \<longleftrightarrow> tx_type t = CREDIT"
  by (cases "tx_type t") simp_all

lemma accumulate_lookup_other:
  "tx_accountName t \<noteq> n \<Longrightarrow> map_of (accumulate t m) n = map_of m n"
  by (simp add: accumulate_def Let_def update_conv')

lemma accumulate_lookup_new:
  "map_of m (tx_accountName t) = None \<Longrightarrow>
   map_of (accumulate t m) (tx_accountName t) =
     Some \<lparr>category = tx_category t,
           debit = (if tx_type t = DEBIT then tx_amount t else 0),
           credit = (if tx_type t = DEBIT then 0 else tx_amount t)\<rparr>"
  by (simp add: accumulate_def Let_def update_conv')

lemma accumulate_lookup_old:
  "map_of m (tx_accountName t) = Some \<lparr>category = c, debit = d, credit = e\<rparr> \<Longrightarrow>
   map_of (accumulate t m) (tx_accountName t) =
     Some \<lparr>category = c,
           debit = (if tx_type t = DEBIT then d + tx_amount t else d),
           credit = (if tx_type t = DEBIT then e else e + tx_amount t)\<rparr>"
  by (simp add: accumulate_def Let_def update_conv')

lemma debitTotal_snoc:
  "debitTotal n (txs @ [t]) =
     debitTotal n txs + (if tx_accountName t = n \<and> tx_type t = DEBIT then tx_amount t else 0)"
  by (simp add: debitTotal_def)

lemma creditTotal_snoc:
  "creditTotal n (txs @ [t]) =
     creditTotal n txs + (if tx_accountName t = n \<and> tx_type t \<noteq> DEBIT then tx_amount t else 0)"
  by (simp add: creditTotal_def type_not_debit)

lemma totals_absent:
  assumes "List.find (\<lambda>t. tx_accountName t = n) txs = None"
  shows "debitTotal n txs = 0" and "creditTotal n txs = 0"
proof -
  from assms have "\<forall>x\<in>set txs. tx_accountName x \<noteq> n"
    by (simp add: find_None_iff)
  then have "filter (\<lambda>t. tx_accountName t = n \<and> tx_type t = DEBIT) txs = []"
    and "filter (\<lambda>t. tx_accountName t = n \<and> tx_type t = CREDIT) txs = []"
    by (simp_all add: filter_empty_conv)
  then show "debitTotal n txs = 0" and "creditTotal n txs = 0"
    by (simp_all add: debitTotal_def creditTotal_def)
qed

lemma accountMap_lookup:
  "map_of (fold accumulate txs []) n =
     map_option (\<lambda>t. \<lparr>category = tx_category t, debit = debitTotal n txs,
                       credit = creditTotal n txs\<rparr>)
       (List.find (\<lambda>t. tx_accountName t = n) txs)"
proof (induction txs rule: rev_induct)
  case Nil
  show ?case by simp
next
  case (snoc t txs)
  let ?m = "fold accumulate txs []"
  have step: "fold accumulate (txs @ [t]) [] = accumulate t ?m" by simp
  show ?case
  proof (cases "tx_accountName t = n")
    case False
    then have "map_of (accumulate t ?m) n = map_of ?m n"
      by (rule accumulate_lookup_other)
    with False snoc.IH show ?thesis
      unfolding step
      by (simp add: find_append debitTotal_snoc creditTotal_snoc split: option.splits)
  next
    case True
    show ?thesis
    proof (cases "List.find (\<lambda>t. tx_accountName t = n) txs")
      case None
      with snoc.IH True have "map_of ?m (tx_accountName t) = None" by simp
      then have "map_of (accumulate t ?m) (tx_accountName t) =
         Some \<lparr>category = tx_category t,
           debit = (if tx_type t = DEBIT then tx_amount t else 0),
           credit = (if tx_type t = DEBIT then 0 else tx_amount t)\<rparr>"
        by (rule accumulate_lookup_new)
      with True None totals_absent [OF None] show ?thesis
        unfolding step
        by (simp add: find_append debitTotal_snoc creditTotal_snoc)
    next
      case (Some u)
      with snoc.IH True have "map_of ?m (tx_accountName t) =
          Some \<lparr>category = tx_category u, debit = debitTotal n txs,
                 credit = creditTotal n txs\<rparr>" by simp
      then have "map_of (accumulate t ?m) (tx_accountName t) =
         Some \<lparr>category = tx_category u,
           debit = (if tx_type t = DEBIT then debitTotal n txs + tx_amount t
                    else debitTotal n txs),
           credit = (if tx_type t = DEBIT then creditTotal n txs
                     else creditTotal n txs + tx_amount t)\<rparr>"
        by (rule accumulate_lookup_old)
      with True Some show ?thesis
        unfolding step
        by (simp add: find_append debitTotal_snoc creditTotal_snoc)
    qed
  qed
qed

lemma buildTrialBalance_toItem: "buildTrialBalance txs = map toItem (fold accumulate txs [])"
  by (simp add: buildTrialBalance_def toItem_def split_beta)

lemma tb_names: "map tb_accountName (buildTrialBalance txs) = firstSeen (map tx_accountName txs)"
proof -
  have "map tb_accountName (buildTrialBalance txs) = map fst (fold accumulate txs [])"
    by (simp add: buildTrialBalance_toItem toItem_def o_def)
  then show ?thesis by (simp add: accountMap_keys)
qed

lemma tb_item:
  assumes "i \<in> set (buildTrialBalance txs)"
  shows "tb_debit i = debitTotal (tb_accountName i) txs \<and>
         tb_credit i = creditTotal (tb_accountName i) txs \<and>
         firstCategory (tb_accountName i) txs = Some (tb_category i)"
proof -
  from assms obtain n d where nd: "(n, d) \<in> set (fold accumulate txs [])" and i: "i = toItem (n, d)"
    by (auto simp: buildTrialBalance_toItem)
  have "distinct (map fst (fold accumulate txs []))"
    by (simp add: accountMap_keys distinct_firstSeen)
  with nd have "map_of (fold accumulate txs []) n = Some d" by simp
  then obtain t where "List.find (\<lambda>t. tx_accountName t = n) txs = Some t"
    and "d = \<lparr>category = tx_category t, debit = debitTotal n txs, credit = creditTotal n txs\<rparr>"
    by (auto simp: accountMap_lookup)
  with i show ?thesis by (simp add: toItem_def firstCategory_def)
qed

lemma tb_triples:
  "(\<lambda>i. (tb_accountName i, tb_debit i, tb_credit i)) ` set (buildTrialBalance txs)
   = (\<lambda>n. (n, debitTotal n txs, creditTotal n txs)) ` set (map tx_accountName txs)"
proof -
  have "(\<lambda>i. (tb_accountName i, tb_debit i, tb_credit i)) ` set (buildTrialBalance txs)
        = (\<lambda>i. (tb_accountName i, debitTotal (tb_accountName i) txs,
                 creditTotal (tb_accountName i) txs)) ` set (buildTrialBalance txs)"
    by (rule image_cong) (simp_all add: tb_item)
  also have "\<dots> = (\<lambda>n. (n, debitTotal n txs, creditTotal n txs))
                      ` set (map tb_accountName (buildTrialBalance txs))"
    by (simp add: image_image)
  also have "\<dots> = (\<lambda>n. (n, debitTotal n txs, creditTotal n txs)) ` set (map tx_accountName txs)"
    by (simp only: tb_names set_firstSeen)
  finally show ?thesis .
qed

lemma sum_filter_perm:
  assumes "mset xs = mset ys"
  shows "sum_list (map f (filter P xs)) = sum_list (map (f :: 'a \<Rightarrow> real) (filter P ys))"
proof -
  from assms have "mset (map f (filter P xs)) = mset (map f (filter P ys))" by simp
  then show ?thesis by (metis sum_mset_sum_list)
qed

lemma tb_triples_perm:
  assumes "mset txs' = mset txs"
  shows "(\<lambda>i. (tb_accountName i, tb_debit i, tb_credit i)) ` set (buildTrialBalance txs')
         = (\<lambda>i. (tb_accountName i, tb_debit i, tb_credit i)) ` set (buildTrialBalance txs)"
proof -
  have d: "debitTotal n txs' = debitTotal n txs" for n
    unfolding debitTotal_def using assms by (rule sum_filter_perm)
  have c: "creditTotal n txs' = creditTotal n txs" for n
    unfolding creditTotal_def using assms by (rule sum_filter_perm)
  from assms have "set txs' = set txs" by (rule mset_eq_setD)
  then show ?thesis by (simp add: tb_triples d c)
qed

text \<open>
  C4, as amended.  The trial balance returned by \<open>calculateStatements\<close> has one item per
  distinct account name, in first-seen order of the names.  The debit total of an item is
  the sum of the amounts of the debit transactions of its account, its credit total the sum
  of the amounts of the credit transactions of its account, and its category the category
  of the first transaction of that account.  In exact arithmetic, a permutation of the
  transactions leaves the debit and credit totals of every account unchanged.
\<close>

theorem trial_balance_correct:
  "map tb_accountName (trialBalance (calculateStatements txs))
     = firstSeen (map tx_accountName txs) \<and>
   distinct (map tb_accountName (trialBalance (calculateStatements txs))) \<and>
   (\<forall>i \<in> set (trialBalance (calculateStatements txs)).
      tb_debit i = debitTotal (tb_accountName i) txs \<and>
      tb_credit i = creditTotal (tb_accountName i) txs \<and>
      firstCategory (tb_accountName i) txs = Some (tb_category i)) \<and>
   (\<forall>txs'. mset txs' = mset txs \<longrightarrow>
      (\<lambda>i. (tb_accountName i, tb_debit i, tb_credit i))
         ` set (trialBalance (calculateStatements txs'))
      = (\<lambda>i. (tb_accountName i, tb_debit i, tb_credit i))
         ` set (trialBalance (calculateStatements txs)))"
proof (intro conjI ballI allI impI)
  show "map tb_accountName (trialBalance (calculateStatements txs))
     = firstSeen (map tx_accountName txs)"
    by (simp only: cs_trialBalance tb_names)
  show "distinct (map tb_accountName (trialBalance (calculateStatements txs)))"
    by (simp only: cs_trialBalance tb_names distinct_firstSeen)
next
  fix i assume "i \<in> set (trialBalance (calculateStatements txs))"
  then have i: "i \<in> set (buildTrialBalance txs)" by (simp only: cs_trialBalance)
  from tb_item [OF i] show "tb_debit i = debitTotal (tb_accountName i) txs"
    and "tb_credit i = creditTotal (tb_accountName i) txs"
    and "firstCategory (tb_accountName i) txs = Some (tb_category i)"
    by blast+
next
  fix txs' :: "Transaction list" assume "mset txs' = mset txs"
  then show "(\<lambda>i. (tb_accountName i, tb_debit i, tb_credit i))
         ` set (trialBalance (calculateStatements txs'))
      = (\<lambda>i. (tb_accountName i, tb_debit i, tb_credit i))
         ` set (trialBalance (calculateStatements txs))"
    unfolding cs_trialBalance by (rule tb_triples_perm)
qed

lemmas tb_eval = cs_trialBalance buildTrialBalance_def accumulate_def Let_def mkTx_def

theorem trial_balance_correct_witness:
  "map tb_accountName (trialBalance (calculateStatements pairedLedger))
     = [''Cash'', ''Common Stock'', ''Rent Expense'', ''Sales Revenue''] \<and>
   \<lparr>tb_accountName = ''Cash'', tb_category = ASSET, tb_debit = 62000, tb_credit = 2000\<rparr>
      \<in> set (trialBalance (calculateStatements pairedLedger)) \<and>
   debitTotal ''Cash'' pairedLedger = 62000 \<and>
   creditTotal ''Cash'' pairedLedger = 2000 \<and>
   firstCategory ''Cash'' pairedLedger = Some ASSET \<and>
   mset (rev pairedLedger) = mset pairedLedger \<and>
   (\<lambda>i. (tb_accountName i, tb_debit i, tb_credit i))
      ` set (trialBalance (calculateStatements (rev pairedLedger)))
   = (\<lambda>i. (tb_accountName i, tb_debit i, tb_credit i))
      ` set (trialBalance (calculateStatements pairedLedger))"
proof -
  have n: "firstSeen (map tx_accountName pairedLedger)
     = [''Cash'', ''Common Stock'', ''Rent Expense'', ''Sales Revenue'']"
    by (simp add: firstSeen_def pairedLedger_def mkTx_def)
  have m: "\<lparr>tb_accountName = ''Cash'', tb_category = ASSET, tb_debit = 62000, tb_credit = 2000\<rparr>
      \<in> set (trialBalance (calculateStatements pairedLedger))"
    by (simp add: tb_eval pairedLedger_def)
  have p: "mset (rev pairedLedger) = mset pairedLedger" by simp
  from trial_balance_correct [of pairedLedger] n m p show ?thesis
    by (auto simp del: mset_rev)
qed

text \<open>
  C4 as stated, for the doubles of the platform, fails: the totals are accumulated in input
  order and each addition rounds.  Three debits of 0.1, 0.2 and 0.3 to one account total
  0.6000000000000001, and the same three in reverse order total 0.6.
\<close>

theorem trial_balance_permutation_counterexample:
  "mset (rev tenthsLedger) = mset tenthsLedger \<and>
   map tb_accountName (buildTrialBalanceWith fadd tenthsLedger) = [''Office Supplies''] \<and>
   map tb_accountName (buildTrialBalanceWith fadd (rev tenthsLedger)) = [''Office Supplies''] \<and>
   map tb_debit (buildTrialBalanceWith fadd tenthsLedger) = [1351079888211149 / 2 ^ 51] \<and>
   map tb_debit (buildTrialBalanceWith fadd (rev tenthsLedger)) = [5404319552844595 / 2 ^ 53] \<and>
   map tb_debit (buildTrialBalanceWith fadd (rev tenthsLedger))
     \<noteq> map tb_debit (buildTrialBalanceWith fadd tenthsLedger)"
proof -
  have f: "fold (accumulateWith fadd) tenthsLedger [] =
      [(''Office Supplies'', \<lparr>category = EXPENSE,
          debit = fadd (fadd (fadd 0 dbl01) dbl02) dbl03, credit = 0\<rparr>)]"
    by (simp add: tenthsLedger_def mkTx_def accumulateWith_def)
  have b: "fold (accumulateWith fadd) (rev tenthsLedger) [] =
      [(''Office Supplies'', \<lparr>category = EXPENSE,
          debit = fadd (fadd (fadd 0 dbl03) dbl02) dbl01, credit = 0\<rparr>)]"
    by (simp add: tenthsLedger_def mkTx_def accumulateWith_def)
  have "map tb_debit (buildTrialBalanceWith fadd tenthsLedger) = [1351079888211149 / 2 ^ 51]"
    and "map tb_debit (buildTrialBalanceWith fadd (rev tenthsLedger)) = [5404319552844595 / 2 ^ 53]"
    and "map tb_accountName (buildTrialBalanceWith fadd tenthsLedger) = [''Office Supplies'']"
    and "map tb_accountName (buildTrialBalanceWith fadd (rev tenthsLedger)) = [''Office Supplies'']"
    unfolding buildTrialBalanceWith_def f b fadd_forward fadd_backward by simp_all
  then show ?thesis by simp
qed

lemma accumulateWith_lookup_other:
  "tx_accountName t \<noteq> n \<Longrightarrow> map_of (accumulateWith add t m) n = map_of m n"
  by (simp add: accumulateWith_def Let_def update_conv')

lemma accumulateWith_lookup_new:
  "map_of m (tx_accountName t) = None \<Longrightarrow>
   map_of (accumulateWith add t m) (tx_accountName t) =
     Some \<lparr>category = tx_category t,
           debit = (if tx_type t = DEBIT then add 0 (tx_amount t) else 0),
           credit = (if tx_type t = DEBIT then 0 else add 0 (tx_amount t))\<rparr>"
  by (simp add: accumulateWith_def Let_def update_conv')

lemma accumulateWith_lookup_old:
  "map_of m (tx_accountName t) = Some \<lparr>category = c, debit = d, credit = e\<rparr> \<Longrightarrow>
   map_of (accumulateWith add t m) (tx_accountName t) =
     Some \<lparr>category = c,
           debit = (if tx_type t = DEBIT then add d (tx_amount t) else d),
           credit = (if tx_type t = DEBIT then e else add e (tx_amount t))\<rparr>"
  by (simp add: accumulateWith_def Let_def update_conv')

lemma absent_filters:
  assumes "List.find (\<lambda>t. tx_accountName t = n) txs = None"
  shows "filter (\<lambda>t. tx_accountName t = n \<and> tx_type t = ty) txs = []"
proof -
  from assms have "\<forall>x\<in>set txs. tx_accountName x \<noteq> n"
    by (simp add: find_None_iff)
  then show ?thesis by (simp add: filter_empty_conv)
qed

text \<open>
  Whatever the addition, the totals of an account are its amounts added one by one, from 0,
  in input order.
\<close>

lemma accountMapWith_lookup:
  "map_of (fold (accumulateWith add) txs []) n =
     map_option
       (\<lambda>t. \<lparr>category = tx_category t,
              debit = foldl add 0 (map tx_amount
                        (filter (\<lambda>t. tx_accountName t = n \<and> tx_type t = DEBIT) txs)),
              credit = foldl add 0 (map tx_amount
                        (filter (\<lambda>t. tx_accountName t = n \<and> tx_type t = CREDIT) txs))\<rparr>)
       (List.find (\<lambda>t. tx_accountName t = n) txs)"
proof (induction txs rule: rev_induct)
  case Nil
  show ?case by simp
next
  case (snoc t txs)
  let ?m = "fold (accumulateWith add) txs []"
  let ?D = "filter (\<lambda>t. tx_accountName t = n \<and> tx_type t = DEBIT) txs"
  let ?C = "filter (\<lambda>t. tx_accountName t = n \<and> tx_type t = CREDIT) txs"
  have step: "fold (accumulateWith add) (txs @ [t]) [] = accumulateWith add t ?m" by simp
  show ?case
  proof (cases "tx_accountName t = n")
    case False
    then have "map_of (accumulateWith add t ?m) n = map_of ?m n"
      by (rule accumulateWith_lookup_other)
    with False snoc.IH show ?thesis
      unfolding step by (simp add: find_append split: option.splits)
  next
    case True
    show ?thesis
    proof (cases "List.find (\<lambda>t. tx_accountName t = n) txs")
      case None
      with snoc.IH True have "map_of ?m (tx_accountName t) = None" by simp
      then have "map_of (accumulateWith add t ?m) (tx_accountName t) =
         Some \<lparr>category = tx_category t,
           debit = (if tx_type t = DEBIT then add 0 (tx_amount t) else 0),
           credit = (if tx_type t = DEBIT then 0 else add 0 (tx_amount t))\<rparr>"
        by (rule accumulateWith_lookup_new)
      with True None absent_filters [OF None] show ?thesis
        unfolding step by (simp add: find_append type_not_debit)
    next
      case (Some u)
      with snoc.IH True have "map_of ?m (tx_accountName t) =
          Some \<lparr>category = tx_category u, debit = foldl add 0 (map tx_amount ?D),
                 credit = foldl add 0 (map tx_amount ?C)\<rparr>" by simp
      then have "map_of (accumulateWith add t ?m) (tx_accountName t) =
         Some \<lparr>category = tx_category u,
           debit = (if tx_type t = DEBIT then add (foldl add 0 (map tx_amount ?D)) (tx_amount t)
                    else foldl add 0 (map tx_amount ?D)),
           credit = (if tx_type t = DEBIT then foldl add 0 (map tx_amount ?C)
                     else add (foldl add 0 (map tx_amount ?C)) (tx_amount t))\<rparr>"
        by (rule accumulateWith_lookup_old)
      with True Some show ?thesis
        unfolding step by (simp add: find_append type_not_debit)
    qed
  qed
qed

section \<open>Properties of the derived statements\<close>

lemmas cs_eval = cs_incomeStatement cs_balanceSheet cs_cashFlow cs_equityChanges
  cs_trialBalance buildTrialBalance_def accumulate_def Let_def mkTx_def sumAmounts_def
  cashFlowStep_def cashAccounts_def

theorem investing_always_empty_witness:
  "investing (cashFlow (calculateStatements sampleTransactions)) = [] \<and>
   mkTx ''7'' ''2023-10-15'' ''Office Equipment'' ''Equipment'' ASSET 5000 DEBIT
     \<in> set sampleTransactions"
  using investing_always_empty [of sampleTransactions]
  by (simp add: sampleTransactions_def)

text \<open>
  C6.  The \<open>cashFlow.netCashFlow\<close> returned by \<open>calculateStatements\<close> is exactly
  total assets less total liabilities less total equity plus net income, all taken from
  the same result.  It is not the sum of the operating, investing and financing buckets:
  on the ledger \<open>pairedLedger\<close> the two figures differ.
\<close>

theorem net_cash_flow_identity:
  "netCashFlow (cashFlow (calculateStatements transactions))
     = totalAssets (balanceSheet (calculateStatements transactions))
       - totalLiabilities (balanceSheet (calculateStatements transactions))
       - totalEquity (balanceSheet (calculateStatements transactions))
       + netIncome (incomeStatement (calculateStatements transactions)) \<and>
   netCashFlow (cashFlow (calculateStatements pairedLedger))
     \<noteq> sumAmounts (operating (cashFlow (calculateStatements pairedLedger)))
       + sumAmounts (investing (cashFlow (calculateStatements pairedLedger)))
       + sumAmounts (financing (cashFlow (calculateStatements pairedLedger)))"
proof
  show "netCashFlow (cashFlow (calculateStatements transactions))
     = totalAssets (balanceSheet (calculateStatements transactions))
       - totalLiabilities (balanceSheet (calculateStatements transactions))
       - totalEquity (balanceSheet (calculateStatements transactions))
       + netIncome (incomeStatement (calculateStatements transactions))"
    by (simp add: cs_cashFlow Let_def)
  show "netCashFlow (cashFlow (calculateStatements pairedLedger))
     \<noteq> sumAmounts (operating (cashFlow (calculateStatements pairedLedger)))
       + sumAmounts (investing (cashFlow (calculateStatements pairedLedger)))
       + sumAmounts (financing (cashFlow (calculateStatements pairedLedger)))"
    by (simp add: cs_eval pairedLedger_def)
qed

theorem net_cash_flow_identity_witness:
  "netCashFlow (cashFlow (calculateStatements pairedLedger)) = 10000 \<and>
   totalAssets (balanceSheet (calculateStatements pairedLedger)) = 60000 \<and>
   totalLiabilities (balanceSheet (calculateStatements pairedLedger)) = 0 \<and>
   totalEquity (balanceSheet (calculateStatements pairedLedger)) = 60000 \<and>
   netIncome (incomeStatement (calculateStatements pairedLedger)) = 10000 \<and>
   sumAmounts (operating (cashFlow (calculateStatements pairedLedger)))
       + sumAmounts (investing (cashFlow (calculateStatements pairedLedger)))
       + sumAmounts (financing (cashFlow (calculateStatements pairedLedger))) = 0"
proof -
  have a: "totalAssets (balanceSheet (calculateStatements pairedLedger)) = 60000"
    by (simp add: cs_eval pairedLedger_def)
  have l: "totalLiabilities (balanceSheet (calculateStatements pairedLedger)) = 0"
    by (simp add: cs_eval pairedLedger_def)
  have e: "totalEquity (balanceSheet (calculateStatements pairedLedger)) = 60000"
    by (simp add: cs_eval pairedLedger_def)
  have n: "netIncome (incomeStatement (calculateStatements pairedLedger)) = 10000"
    by (simp add: cs_eval pairedLedger_def)
  have b: "sumAmounts (operating (cashFlow (calculateStatements pairedLedger)))
       + sumAmounts (investing (cashFlow (calculateStatements pairedLedger)))
       + sumAmounts (financing (cashFlow (calculateStatements pairedLedger))) = 0"
    by (simp add: cs_eval pairedLedger_def)
  from net_cash_flow_identity [of pairedLedger] a l e n b show ?thesis by simp
qed

text \<open>
  C8.  The \<open>equityChanges\<close> returned by \<open>calculateStatements\<close> hold one row for each
  equity row of the trial balance, in order, and then exactly one row
  \<open>Retained Earnings\<close>.  For an equity row of amount \<open>A\<close> (credit less debit) the
  opening balance is 50000 and the additions are \<open>A - 50000\<close> when \<open>A\<close> exceeds 50000,
  and they are 0 and \<open>A\<close> otherwise; net income and withdrawals are 0 and the closing
  balance is \<open>A\<close>.  The final row has opening balance 0, additions 0, the net income of
  the period, withdrawals 0 and the net income as closing balance.
\<close>

theorem equity_roll_forward:
  "equityChanges (calculateStatements transactions) =
     map (\<lambda>i. \<lparr>ec_accountName = tb_accountName i,
                 openingBalance = (if tb_credit i - tb_debit i > 50000 then 50000 else 0),
                 additions = (if tb_credit i - tb_debit i > 50000
                              then tb_credit i - tb_debit i - 50000
                              else tb_credit i - tb_debit i),
                 ec_netIncome = 0,
                 withdrawals = 0,
                 closingBalance = tb_credit i - tb_debit i\<rparr>)
         (filter (\<lambda>i. tb_category i = EQUITY) (trialBalance (calculateStatements transactions)))
     @ [\<lparr>ec_accountName = ''Retained Earnings'', openingBalance = 0, additions = 0,
          ec_netIncome = netIncome (incomeStatement (calculateStatements transactions)),
          withdrawals = 0,
          closingBalance = netIncome (incomeStatement (calculateStatements transactions))\<rparr>]"
  by (simp add: cs_equityChanges cs_trialBalance equityChange_def o_def)

theorem equity_roll_forward_witness:
  "equityChanges (calculateStatements capitalLedger) =
     [\<lparr>ec_accountName = ''Common Stock'', openingBalance = 50000, additions = 30000,
       ec_netIncome = 0, withdrawals = 0, closingBalance = 80000\<rparr>,
      \<lparr>ec_accountName = ''Owner Capital'', openingBalance = 0, additions = 20000,
       ec_netIncome = 0, withdrawals = 0, closingBalance = 20000\<rparr>,
      \<lparr>ec_accountName = ''Retained Earnings'', openingBalance = 0, additions = 0,
       ec_netIncome = 12000, withdrawals = 0, closingBalance = 12000\<rparr>]"
proof -
  have t: "trialBalance (calculateStatements capitalLedger) =
     [\<lparr>tb_accountName = ''Cash'', tb_category = ASSET, tb_debit = 112000, tb_credit = 0\<rparr>,
      \<lparr>tb_accountName = ''Common Stock'', tb_category = EQUITY, tb_debit = 0, tb_credit = 80000\<rparr>,
      \<lparr>tb_accountName = ''Owner Capital'', tb_category = EQUITY, tb_debit = 0, tb_credit = 20000\<rparr>,
      \<lparr>tb_accountName = ''Sales Revenue'', tb_category = REVENUE, tb_debit = 0, tb_credit = 12000\<rparr>]"
    by (simp add: cs_eval capitalLedger_def)
  have n: "netIncome (incomeStatement (calculateStatements capitalLedger)) = 12000"
    by (simp add: cs_eval capitalLedger_def)
  from equity_roll_forward [of capitalLedger] show ?thesis
    unfolding t n by simp
qed

text \<open>
  C5.  In the result of \<open>calculateStatements\<close> net income is total revenue less total
  expenses, total revenue being the sum of credit less debit over the revenue rows of the
  trial balance and total expenses the sum of debit less credit over its expense rows.  The
  equity rows of the balance sheet are the equity rows of the trial balance followed by
  exactly one row \<open>Current Period Earnings\<close> whose amount is net income, and total equity
  sums them all, that row included.  The trial balance itself is the one built from the
  transactions alone: its account names are those of the input, each once.
\<close>

theorem income_and_equity:
  "netIncome (incomeStatement (calculateStatements transactions))
     = totalRevenue (incomeStatement (calculateStatements transactions))
       - totalExpenses (incomeStatement (calculateStatements transactions)) \<and>
   totalRevenue (incomeStatement (calculateStatements transactions))
     = sum_list (map (\<lambda>i. tb_credit i - tb_debit i)
         (filter (\<lambda>i. tb_category i = REVENUE)
            (trialBalance (calculateStatements transactions)))) \<and>
   totalExpenses (incomeStatement (calculateStatements transactions))
     = sum_list (map (\<lambda>i. tb_debit i - tb_credit i)
         (filter (\<lambda>i. tb_category i = EXPENSE)
            (trialBalance (calculateStatements transactions)))) \<and>
   equity (balanceSheet (calculateStatements transactions))
     = map (\<lambda>i. \<lparr>label = tb_accountName i, amount = tb_credit i - tb_debit i, isTotal = None\<rparr>)
         (filter (\<lambda>i. tb_category i = EQUITY)
            (trialBalance (calculateStatements transactions)))
       @ [\<lparr>label = ''Current Period Earnings'',
            amount = netIncome (incomeStatement (calculateStatements transactions)),
            isTotal = None\<rparr>] \<and>
   totalEquity (balanceSheet (calculateStatements transactions))
     = sum_list (map amount (equity (balanceSheet (calculateStatements transactions)))) \<and>
   totalEquity (balanceSheet (calculateStatements transactions))
     = sum_list (map (\<lambda>i. tb_credit i - tb_debit i)
         (filter (\<lambda>i. tb_category i = EQUITY)
            (trialBalance (calculateStatements transactions))))
       + netIncome (incomeStatement (calculateStatements transactions)) \<and>
   trialBalance (calculateStatements transactions) = buildTrialBalance transactions \<and>
   set (map tb_accountName (trialBalance (calculateStatements transactions)))
     = set (map tx_accountName transactions) \<and>
   distinct (map tb_accountName (trialBalance (calculateStatements transactions)))"
proof (intro conjI)
  show "netIncome (incomeStatement (calculateStatements transactions))
     = totalRevenue (incomeStatement (calculateStatements transactions))
       - totalExpenses (incomeStatement (calculateStatements transactions))"
    by (simp add: cs_incomeStatement Let_def)
  show "totalRevenue (incomeStatement (calculateStatements transactions))
     = sum_list (map (\<lambda>i. tb_credit i - tb_debit i)
         (filter (\<lambda>i. tb_category i = REVENUE)
            (trialBalance (calculateStatements transactions))))"
    by (simp add: cs_incomeStatement cs_trialBalance Let_def sumAmounts_sum_list o_def)
  show "totalExpenses (incomeStatement (calculateStatements transactions))
     = sum_list (map (\<lambda>i. tb_debit i - tb_credit i)
         (filter (\<lambda>i. tb_category i = EXPENSE)
            (trialBalance (calculateStatements transactions))))"
    by (simp add: cs_incomeStatement cs_trialBalance Let_def sumAmounts_sum_list o_def)
  show "equity (balanceSheet (calculateStatements transactions))
     = map (\<lambda>i. \<lparr>label = tb_accountName i, amount = tb_credit i - tb_debit i, isTotal = None\<rparr>)
         (filter (\<lambda>i. tb_category i = EQUITY)
            (trialBalance (calculateStatements transactions)))
       @ [\<lparr>label = ''Current Period Earnings'',
            amount = netIncome (incomeStatement (calculateStatements transactions)),
            isTotal = None\<rparr>]"
    by (simp add: cs_balanceSheet cs_trialBalance Let_def)
  show "totalEquity (balanceSheet (calculateStatements transactions))
     = sum_list (map amount (equity (balanceSheet (calculateStatements transactions))))"
    by (simp add: cs_balanceSheet Let_def sumAmounts_sum_list)
  show "totalEquity (balanceSheet (calculateStatements transactions))
     = sum_list (map (\<lambda>i. tb_credit i - tb_debit i)
         (filter (\<lambda>i. tb_category i = EQUITY)
            (trialBalance (calculateStatements transactions))))
       + netIncome (incomeStatement (calculateStatements transactions))"
    by (simp add: cs_balanceSheet cs_trialBalance Let_def sumAmounts_sum_list o_def)
  show "trialBalance (calculateStatements transactions) = buildTrialBalance transactions"
    by (rule cs_trialBalance)
  show "set (map tb_accountName (trialBalance (calculateStatements transactions)))
     = set (map tx_accountName transactions)"
    by (simp only: cs_trialBalance tb_names set_firstSeen)
  show "distinct (map tb_accountName (trialBalance (calculateStatements transactions)))"
    by (simp only: cs_trialBalance tb_names distinct_firstSeen)
qed

theorem income_and_equity_witness:
  "netIncome (incomeStatement (calculateStatements pairedLedger)) = 10000 \<and>
   totalRevenue (incomeStatement (calculateStatements pairedLedger)) = 12000 \<and>
   totalExpenses (incomeStatement (calculateStatements pairedLedger)) = 2000 \<and>
   equity (balanceSheet (calculateStatements pairedLedger))
     = [\<lparr>label = ''Common Stock'', amount = 50000, isTotal = None\<rparr>,
        \<lparr>label = ''Current Period Earnings'', amount = 10000, isTotal = None\<rparr>] \<and>
   totalEquity (balanceSheet (calculateStatements pairedLedger)) = 60000 \<and>
   map tb_accountName (trialBalance (calculateStatements pairedLedger))
     = [''Cash'', ''Common Stock'', ''Rent Expense'', ''Sales Revenue'']"
proof -
  have t: "trialBalance (calculateStatements pairedLedger) =
     [\<lparr>tb_accountName = ''Cash'', tb_category = ASSET, tb_debit = 62000, tb_credit = 2000\<rparr>,
      \<lparr>tb_accountName = ''Common Stock'', tb_category = EQUITY, tb_debit = 0, tb_credit = 50000\<rparr>,
      \<lparr>tb_accountName = ''Rent Expense'', tb_category = EXPENSE, tb_debit = 2000, tb_credit = 0\<rparr>,
      \<lparr>tb_accountName = ''Sales Revenue'', tb_category = REVENUE, tb_debit = 0, tb_credit = 12000\<rparr>]"
    by (simp add: cs_eval pairedLedger_def)
  have b: "buildTrialBalance pairedLedger = trialBalance (calculateStatements pairedLedger)"
    by (simp only: cs_trialBalance)
  from income_and_equity [of pairedLedger] show ?thesis
    unfolding b unfolding t by simp
qed

subsection \<open>The accounting identity\<close>

lemma update_sum:
  fixes g :: "'v \<Rightarrow> real"
  shows "sum_list (map (\<lambda>p. g (snd p)) (AList.update k v m))
         = sum_list (map (\<lambda>p. g (snd p)) m)
           - (case map_of m k of None \<Rightarrow> 0 | Some old \<Rightarrow> g old) + g v"
  by (induction m) auto

lemma accumulate_debit_sum:
  "sum_list (map (\<lambda>p. debit (snd p)) (accumulate t m))
   = sum_list (map (\<lambda>p. debit (snd p)) m) + (if tx_type t = DEBIT then tx_amount t else 0)"
  by (simp add: accumulate_def Let_def update_sum split: option.splits)

lemma accumulate_credit_sum:
  "sum_list (map (\<lambda>p. credit (snd p)) (accumulate t m))
   = sum_list (map (\<lambda>p. credit (snd p)) m) + (if tx_type t = DEBIT then 0 else tx_amount t)"
  by (simp add: accumulate_def Let_def update_sum split: option.splits)

lemma typeTotal_snoc:
  "typeTotal ty (txs @ [t]) = typeTotal ty txs + (if tx_type t = ty then tx_amount t else 0)"
  by (simp add: typeTotal_def)

lemma accountMap_debit_sum:
  "sum_list (map (\<lambda>p. debit (snd p)) (fold accumulate txs [])) = typeTotal DEBIT txs"
proof (induction txs rule: rev_induct)
  case Nil
  show ?case by (simp add: typeTotal_def)
next
  case (snoc t txs)
  have "fold accumulate (txs @ [t]) [] = accumulate t (fold accumulate txs [])" by simp
  with snoc.IH show ?case by (simp only: accumulate_debit_sum typeTotal_snoc)
qed

lemma accountMap_credit_sum:
  "sum_list (map (\<lambda>p. credit (snd p)) (fold accumulate txs [])) = typeTotal CREDIT txs"
proof (induction txs rule: rev_induct)
  case Nil
  show ?case by (simp add: typeTotal_def)
next
  case (snoc t txs)
  have "fold accumulate (txs @ [t]) [] = accumulate t (fold accumulate txs [])" by simp
  with snoc.IH show ?case
    by (simp only: accumulate_credit_sum typeTotal_snoc type_not_debit [symmetric])
      (simp add: type_not_debit)
qed

lemma tb_debit_sum: "sum_list (map tb_debit (buildTrialBalance txs)) = typeTotal DEBIT txs"
  using accountMap_debit_sum [of txs] by (simp add: buildTrialBalance_toItem toItem_def o_def)

lemma tb_credit_sum: "sum_list (map tb_credit (buildTrialBalance txs)) = typeTotal CREDIT txs"
  using accountMap_credit_sum [of txs] by (simp add: buildTrialBalance_toItem toItem_def o_def)

lemma category_partition:
  "sum_list (map (\<lambda>i. tb_debit i - tb_credit i) (filter (\<lambda>i. tb_category i = ASSET) tb))
   - sum_list (map (\<lambda>i. tb_credit i - tb_debit i) (filter (\<lambda>i. tb_category i = LIABILITY) tb))
   - (sum_list (map (\<lambda>i. tb_credit i - tb_debit i) (filter (\<lambda>i. tb_category i = EQUITY) tb))
      + (sum_list (map (\<lambda>i. tb_credit i - tb_debit i) (filter (\<lambda>i. tb_category i = REVENUE) tb))
         - sum_list (map (\<lambda>i. tb_debit i - tb_credit i)
             (filter (\<lambda>i. tb_category i = EXPENSE) tb))))
   = sum_list (map tb_debit tb) - sum_list (map tb_credit tb)"
proof (induction tb)
  case Nil
  show ?case by simp
next
  case (Cons i tb)
  then show ?case by (cases "tb_category i") simp_all
qed

lemma accounting_identity:
  "totalAssets (balanceSheet (calculateStatements txs))
   - totalLiabilities (balanceSheet (calculateStatements txs))
   - totalEquity (balanceSheet (calculateStatements txs))
   = typeTotal DEBIT txs - typeTotal CREDIT txs"
proof -
  have "totalAssets (balanceSheet (calculateStatements txs))
   - totalLiabilities (balanceSheet (calculateStatements txs))
   - totalEquity (balanceSheet (calculateStatements txs))
   = sum_list (map tb_debit (buildTrialBalance txs))
     - sum_list (map tb_credit (buildTrialBalance txs))"
    unfolding category_partition [symmetric]
    by (simp add: cs_balanceSheet cs_incomeStatement Let_def sumAmounts_sum_list o_def)
  then show ?thesis by (simp only: tb_debit_sum tb_credit_sum)
qed

text \<open>
  C1.  For a balanced ledger, one whose debit amounts and credit amounts have the same sum,
  the balance sheet returned by \<open>calculateStatements\<close> satisfies total assets = total
  liabilities + total equity, total equity including the row \<open>Current Period Earnings\<close>
  (in exact arithmetic).
\<close>

theorem balance_sheet_balances:
  assumes "balanced transactions"
  shows "totalAssets (balanceSheet (calculateStatements transactions))
         = totalLiabilities (balanceSheet (calculateStatements transactions))
           + totalEquity (balanceSheet (calculateStatements transactions))"
  using assms accounting_identity [of transactions] by (simp add: balanced_def)

theorem balance_sheet_balances_witness:
  "balanced pairedLedger \<and>
   totalAssets (balanceSheet (calculateStatements pairedLedger)) = 60000 \<and>
   totalLiabilities (balanceSheet (calculateStatements pairedLedger))
     + totalEquity (balanceSheet (calculateStatements pairedLedger)) = 60000"
proof -
  have b: "balanced pairedLedger"
    by (simp add: balanced_def typeTotal_def pairedLedger_def mkTx_def)
  have a: "totalAssets (balanceSheet (calculateStatements pairedLedger)) = 60000"
    by (simp add: cs_eval pairedLedger_def)
  from balance_sheet_balances [OF b] a b show ?thesis by simp
qed

section \<open>Properties of the monthly trend\<close>

lemmas date_eval = platformMonth_def calendarMonth_def parseDateOnly_def daysInMonth_def
  isLeapYear_def digitVal_def Let_def



















text \<open>
  The reader on some date-only strings: a day past the end of the month, a day number above
  31, and the first of a month west and east of Greenwich.
\<close>

lemma platformMonth_examples: "platformMonth 0 ''2023-02-30'' = Some 2 \<and> platformMonth 0 ''2023-10-32'' = None
   \<and> platformMonth (-300) ''2024-02-30'' = Some 1 \<and> platformMonth 60 ''2024-03-01'' = Some 2
   \<and> platformMonth (-60) ''2024-01-01'' = Some 11 \<and> calendarMonth ''2023-02-30'' = None"
  by (simp add: date_eval)


text \<open>The trend of the sample transactions, read in UTC.\<close>

lemma trend_sample:
  "map (\<lambda>p. (month p, tp_revenue p, tp_expense p, tp_profit p))
     (getTrendData (platformMonth 0) sampleTransactions)
   = [(''Jan'', 0, 0, 0), (''Feb'', 0, 0, 0), (''Mar'', 0, 0, 0), (''Apr'', 0, 0, 0),
      (''May'', 0, 0, 0), (''Jun'', 0, 0, 0), (''Jul'', 0, 0, 0), (''Aug'', 0, 0, 0),
      (''Sep'', 40000, 2000, 38000), (''Oct'', 12000, 6500, 5500), (''Nov'', 0, 0, 0),
      (''Dec'', 0, 0, 0)]"
  by (simp add: getTrendData_def trendStep_def monthLabelOf_def months_def Let_def
      sampleTransactions_def mkTx_def date_eval)

end
